theory Spec2Isabelle
  imports Complex_Main "HOL-Library.List_Lexorder"
begin

text \<open>
  The soup predictor is two Python scripts: \<open>train_model.py\<close> fits a classifier on the
  history of soups cooked and saves it with its label vocabulary and feature schema;
  \<open>predict.py\<close> loads the three, asks for tomorrow's date, weather, temperature and the
  contents of the fridge, ranks the soups and checks the recipe of the first against the
  fridge. Both are modelled here statement by statement, over the strings, dates and files
  they handle, and the properties of their steps and runs are proved.
\<close>

section \<open>Python strings\<close>

text \<open>
  A Python \<open>str\<close> is a sequence of Unicode code points. The scripts compare, strip, split
  and replace strings that contain Chinese text, so a string is modelled as the list of
  its code points. \<open>ascii\<close> writes an ASCII literal as such a list.
\<close>

type_synonym pystr = "nat list"

definition ascii :: "string \<Rightarrow> pystr" where
  "ascii s = map of_char s"

text \<open>The code points for which \<open>str.isspace\<close> holds; \<open>str.strip()\<close> removes them.\<close>

definition isspace :: "nat \<Rightarrow> bool" where
  "isspace c = (c \<in> set [9, 10, 11, 12, 13, 28, 29, 30, 31, 32, 133, 160, 5760,
      8192, 8193, 8194, 8195, 8196, 8197, 8198, 8199, 8200, 8201, 8202,
      8232, 8233, 8239, 8287, 12288])"

definition strip :: "pystr \<Rightarrow> pystr" where
  "strip s = rev (dropWhile isspace (rev (dropWhile isspace s)))"

text \<open>\<open>s.startswith(p)\<close>.\<close>

definition startswith :: "pystr \<Rightarrow> pystr \<Rightarrow> bool" where
  "startswith s p = (take (length p) s = p)"

text \<open>\<open>s.replace(old, new)\<close> for single characters, and \<open>s.split(sep)\<close> for a single
  character separator (\<open>''.split(',')\<close> is \<open>['']\<close>).\<close>

definition replace_char :: "nat \<Rightarrow> nat \<Rightarrow> pystr \<Rightarrow> pystr" where
  "replace_char old new s = map (\<lambda>c. if c = old then new else c) s"

fun split :: "nat \<Rightarrow> pystr \<Rightarrow> pystr list" where
  "split sep [] = [[]]"
| "split sep (c # cs) =
     (if c = sep then [] # split sep cs
      else (case split sep cs of [] \<Rightarrow> [[c]] | w # ws \<Rightarrow> (c # w) # ws))"

text \<open>\<open>s.replace(p, '')\<close>: every non-overlapping occurrence of the non-empty pattern
  \<open>p\<close> is deleted, scanning from the left.\<close>

function remove_all :: "pystr \<Rightarrow> pystr \<Rightarrow> pystr" where
  "remove_all p [] = []"
| "remove_all p (c # cs) =
     (if p \<noteq> [] \<and> startswith (c # cs) p then remove_all p (drop (length p) (c # cs))
      else c # remove_all p cs)"
  by pat_completeness auto
termination
  by (relation "measure (\<lambda>(p, s). length s)") auto

text \<open>\<open>str(n)\<close> for a one-digit number and \<open>', '.join\<close> are only printed; the digits
  \<open>'0'\<close> to \<open>'9'\<close> are the code points 48 to 57.\<close>

definition digit_char :: "nat \<Rightarrow> nat" where
  "digit_char n = 48 + n"

definition is_digit :: "nat \<Rightarrow> bool" where
  "is_digit c = (48 \<le> c \<and> c \<le> 57)"

definition digit_val :: "nat \<Rightarrow> nat" where
  "digit_val c = c - 48"

text \<open>
  The decimal digits of Unicode (general category Nd, Unicode 14 as in CPython 3.11) come in
  runs of ten consecutive code points, zero to nine; \<open>digit_zeros\<close> lists the zero of each
  run. \<open>decimal_value c\<close> is the digit value of a decimal digit (\<open>Py_UNICODE_TODECIMAL\<close>),
  and \<open>None\<close> for every other code point. The class \<open>\d\<close> of a \<open>str\<close> pattern and
  \<open>int\<close> and \<open>float\<close> applied to a \<open>str\<close> accept all of these digits.
\<close>

definition digit_zeros :: "nat list" where
  "digit_zeros = [48, 1632, 1776, 1984, 2406, 2534, 2662, 2790, 2918, 3046, 3174, 3302, 3430,
     3558, 3664, 3792, 3872, 4160, 4240, 6112, 6160, 6470, 6608, 6784, 6800, 6992, 7088, 7232,
     7248, 42528, 43216, 43264, 43472, 43504, 43600, 44016, 65296, 66720, 68912, 69734, 69872,
     69942, 70096, 70384, 70736, 70864, 71248, 71360, 71472, 71904, 72016, 72784, 73040, 73120,
     92768, 92864, 93008, 120782, 120792, 120802, 120812, 120822, 123200, 123632, 125264,
     130032]"

definition decimal_value :: "nat \<Rightarrow> nat option" where
  "decimal_value c = map_option (\<lambda>z. c - z) (find (\<lambda>z. z \<le> c \<and> c < z + 10) digit_zeros)"

section \<open>Exceptions\<close>

text \<open>
  Every exception the scripts can raise is a value. \<open>ValueError\<close> carries what raised it:
  \<open>TimeData s\<close> is \<open>datetime.strptime\<close> rejecting the string \<open>s\<close>, \<open>NotAFloat s\<close> is
  \<open>float(s)\<close> rejecting \<open>s\<close>. \<open>SystemExit\<close> is what \<open>exit()\<close> raises.
\<close>

datatype cause = TimeData pystr | NotAFloat pystr | UnseenLabels | PredictProba | SplitFailed
  | FitFailed | ReportFailed

datatype exn = FileNotFoundError | ValueError cause | KeyError "pystr list" | IndexError
  | EOFError | OverflowError | SystemExit

section \<open>Dates\<close>

text \<open>
  \<open>datetime\<close> values, reduced to the calendar date the script uses. The functions follow
  CPython's \<open>datetime\<close> module: proleptic Gregorian calendar, years 1 to 9999.
\<close>

datatype date = Date (dyear: nat) (dmonth: nat) (dday: nat)

definition is_leap :: "nat \<Rightarrow> bool" where
  "is_leap y = (y mod 4 = 0 \<and> (y mod 100 \<noteq> 0 \<or> y mod 400 = 0))"

definition days_in_month :: "nat \<Rightarrow> nat \<Rightarrow> nat" where
  "days_in_month y m =
     (if m = 2 then (if is_leap y then 29 else 28)
      else if m \<in> {4, 6, 9, 11} then 30 else 31)"

definition valid_date :: "date \<Rightarrow> bool" where
  "valid_date dt = (1 \<le> dyear dt \<and> dyear dt \<le> 9999 \<and> 1 \<le> dmonth dt \<and> dmonth dt \<le> 12
     \<and> 1 \<le> dday dt \<and> dday dt \<le> days_in_month (dyear dt) (dmonth dt))"

definition days_before_year :: "nat \<Rightarrow> nat" where
  "days_before_year y = (y - 1) * 365 + (y - 1) div 4 - (y - 1) div 100 + (y - 1) div 400"

definition days_before_month :: "nat \<Rightarrow> nat \<Rightarrow> nat" where
  "days_before_month y m = sum_list (map (days_in_month y) [1..<m])"

definition toordinal :: "date \<Rightarrow> nat" where
  "toordinal dt = days_before_year (dyear dt) + days_before_month (dyear dt) (dmonth dt) + dday dt"

text \<open>\<open>isoweekday()\<close> is \<open>toordinal() % 7 or 7\<close>: Monday is 1, Sunday is 7.\<close>

definition isoweekday :: "date \<Rightarrow> nat" where
  "isoweekday dt = (let r = toordinal dt mod 7 in if r = 0 then 7 else r)"

text \<open>\<open>dt + timedelta(days=1)\<close>; past 9999-12-31 it raises \<open>OverflowError\<close>.\<close>

definition add_one_day :: "date \<Rightarrow> exn + date" where
  "add_one_day dt =
     (if dday dt < days_in_month (dyear dt) (dmonth dt)
        then Inr (Date (dyear dt) (dmonth dt) (dday dt + 1))
      else if dmonth dt < 12 then Inr (Date (dyear dt) (dmonth dt + 1) 1)
      else if dyear dt < 9999 then Inr (Date (dyear dt + 1) 1 1)
      else Inl OverflowError)"

text \<open>\<open>dt.strftime("%Y-%m-%d")\<close>, for a year of four digits.\<close>

definition two_digits :: "nat \<Rightarrow> pystr" where
  "two_digits n = [digit_char (n div 10 mod 10), digit_char (n mod 10)]"

definition strftime :: "date \<Rightarrow> pystr" where
  "strftime dt = two_digits (dyear dt div 100) @ two_digits (dyear dt) @ [45]
     @ two_digits (dmonth dt) @ [45] @ two_digits (dday dt)"

text \<open>
  \<open>datetime.strptime(s, "%Y-%m-%d")\<close>. CPython matches \<open>s\<close> from its start against
  \<open>(\d\d\d\d)-(1[0-2]|0[1-9]|[1-9])-(3[0-1]|[1-2]\d|0[1-9]|[1-9]| [1-9])\<close>, taking the
  first alternative that fits; text left after the match, a year 0 and a day the month does
  not have are all \<open>ValueError\<close>. \<open>\d\<close> is any Unicode decimal digit, the bracketed
  ranges are ASCII digits only, and \<open>int\<close> reads the digits matched by their decimal
  value.
\<close>

fun parse_month :: "pystr \<Rightarrow> (nat \<times> pystr) option" where
  "parse_month (a # b # rest) =
     (if a = 49 \<and> 48 \<le> b \<and> b \<le> 50 then Some (10 + digit_val b, rest)
      else if a = 48 \<and> 49 \<le> b \<and> b \<le> 57 then Some (digit_val b, rest)
      else if 49 \<le> a \<and> a \<le> 57 then Some (digit_val a, b # rest)
      else None)"
| "parse_month [a] = (if 49 \<le> a \<and> a \<le> 57 then Some (digit_val a, []) else None)"
| "parse_month [] = None"

fun parse_day :: "pystr \<Rightarrow> (nat \<times> pystr) option" where
  "parse_day (a # b # rest) =
     (if a = 51 \<and> 48 \<le> b \<and> b \<le> 49 then Some (30 + digit_val b, rest)
      else if 49 \<le> a \<and> a \<le> 50 \<and> decimal_value b \<noteq> None
        then Some (10 * digit_val a + the (decimal_value b), rest)
      else if a = 48 \<and> 49 \<le> b \<and> b \<le> 57 then Some (digit_val b, rest)
      else if 49 \<le> a \<and> a \<le> 57 then Some (digit_val a, b # rest)
      else if a = 32 \<and> 49 \<le> b \<and> b \<le> 57 then Some (digit_val b, rest)
      else None)"
| "parse_day [a] = (if 49 \<le> a \<and> a \<le> 57 then Some (digit_val a, []) else None)"
| "parse_day [] = None"

fun parse_year :: "pystr \<Rightarrow> (nat \<times> pystr) option" where
  "parse_year (a # b # c # d # rest) =
     (case (decimal_value a, decimal_value b, decimal_value c, decimal_value d) of
        (Some va, Some vb, Some vc, Some vd) \<Rightarrow> Some (1000 * va + 100 * vb + 10 * vc + vd, rest)
      | _ \<Rightarrow> None)"
| "parse_year _ = None"

definition strptime :: "pystr \<Rightarrow> exn + date" where
  "strptime s =
     (case parse_year s of
        None \<Rightarrow> Inl (ValueError (TimeData s))
      | Some (y, r1) \<Rightarrow>
          (case r1 of
             [] \<Rightarrow> Inl (ValueError (TimeData s))
           | c1 # r1' \<Rightarrow>
               if c1 \<noteq> 45 then Inl (ValueError (TimeData s))
               else (case parse_month r1' of
                  None \<Rightarrow> Inl (ValueError (TimeData s))
                | Some (m, r2) \<Rightarrow>
                    (case r2 of
                       [] \<Rightarrow> Inl (ValueError (TimeData s))
                     | c2 # r2' \<Rightarrow>
                         if c2 \<noteq> 45 then Inl (ValueError (TimeData s))
                         else (case parse_day r2' of
                            None \<Rightarrow> Inl (ValueError (TimeData s))
                          | Some (d, r3) \<Rightarrow>
                              if r3 \<noteq> [] then Inl (ValueError (TimeData s))
                              else if valid_date (Date y m d) then Inr (Date y m d)
                              else Inl (ValueError (TimeData s)))))))"

section \<open>Numbers typed at the console\<close>

text \<open>
  A Python \<open>float\<close> is an IEEE 754 binary64 number: a finite value, an infinity or a NaN.
  The finite values are given by the real number they stand for; the sign of a zero is not
  kept.
\<close>

datatype pyfloat = Finite real | PosInf | NegInf | NaN

text \<open>\<open>x < n\<close> and \<open>x > n\<close> for a float and an \<open>int\<close> literal: every comparison with
  NaN is false.\<close>

definition float_lt :: "pyfloat \<Rightarrow> int \<Rightarrow> bool" where
  "float_lt x n = (case x of Finite r \<Rightarrow> r < of_int n | NegInf \<Rightarrow> True | _ \<Rightarrow> False)"

definition float_gt :: "pyfloat \<Rightarrow> int \<Rightarrow> bool" where
  "float_gt x n = (case x of Finite r \<Rightarrow> of_int n < r | PosInf \<Rightarrow> True | _ \<Rightarrow> False)"

text \<open>
  \<open>float(s)\<close> for a \<open>str\<close>, as CPython's \<open>PyFloat_FromString\<close> reads it. The string
  is first brought to ASCII: a code point below 127 is kept, any other \<open>str.isspace\<close>
  character becomes a blank, any other decimal digit becomes the ASCII digit of its value,
  and at the first code point that is none of these a question mark is written and the rest
  is dropped.
\<close>

fun transform_decimal_and_space_to_ascii :: "pystr \<Rightarrow> pystr" where
  "transform_decimal_and_space_to_ascii [] = []"
| "transform_decimal_and_space_to_ascii (c # cs) =
     (if c < 127 then c # transform_decimal_and_space_to_ascii cs
      else if isspace c then 32 # transform_decimal_and_space_to_ascii cs
      else (case decimal_value c of
              Some v \<Rightarrow> (48 + v) # transform_decimal_and_space_to_ascii cs
            | None \<Rightarrow> [63]))"

text \<open>Then the whitespace of the C locale (tab to carriage return, and the blank) is
  stripped at both ends.\<close>

definition c_isspace :: "nat \<Rightarrow> bool" where
  "c_isspace c = (c \<in> set [9, 10, 11, 12, 13, 32])"

definition c_strip :: "pystr \<Rightarrow> pystr" where
  "c_strip s = rev (dropWhile c_isspace (rev (dropWhile c_isspace s)))"

text \<open>
  Underscores may group digits (\<open>'1_000.5'\<close>): a string that holds one is accepted only
  when each underscore stands between two ASCII digits, and is then read without them.
  \<open>prev\<close> is the character before the one looked at.
\<close>

fun drop_underscores :: "nat \<Rightarrow> pystr \<Rightarrow> pystr option" where
  "drop_underscores prev [] = (if prev = 95 then None else Some [])"
| "drop_underscores prev (c # cs) =
     (if c = 95 then (if is_digit prev then drop_underscores c cs else None)
      else if prev = 95 \<and> \<not> is_digit c then None
      else map_option ((#) c) (drop_underscores c cs))"

text \<open>An optional sign; the words \<open>inf\<close>, \<open>infinity\<close> and \<open>nan\<close>, in any mix of upper
  and lower case.\<close>

definition parse_sign :: "pystr \<Rightarrow> bool \<times> pystr" where
  "parse_sign s =
     (case s of
        [] \<Rightarrow> (False, [])
      | c # cs \<Rightarrow> if c = 45 then (True, cs) else if c = 43 then (False, cs) else (False, s))"

definition lower :: "nat \<Rightarrow> nat" where
  "lower c = (if 65 \<le> c \<and> c \<le> 90 then c + 32 else c)"

definition inf_or_nan :: "pystr \<Rightarrow> pyfloat option" where
  "inf_or_nan s =
     (case parse_sign s of (neg, r) \<Rightarrow>
        let w = map lower r in
        if w = ascii ''inf'' \<or> w = ascii ''infinity'' then Some (if neg then NegInf else PosInf)
        else if w = ascii ''nan'' then Some NaN
        else None)"

text \<open>
  A decimal numeral: sign, digits, an optional point and digits, with a digit on at least
  one side of the point, and an optional exponent \<open>e\<close> or \<open>E\<close> with its own sign and at
  least one digit. Its value is the sign and the exact number denoted, the digits of both
  sides read as one integer and scaled by the power of ten.
\<close>

definition digits_value :: "pystr \<Rightarrow> nat" where
  "digits_value ds = foldl (\<lambda>acc c. 10 * acc + digit_val c) 0 ds"

definition ipow :: "real \<Rightarrow> int \<Rightarrow> real" where
  "ipow b k = (if 0 \<le> k then b ^ nat k else 1 / b ^ nat (- k))"

definition decimal :: "pystr \<Rightarrow> (bool \<times> real) option" where
  "decimal s =
     (case parse_sign s of (neg, r) \<Rightarrow>
        let ip = takeWhile is_digit r;
            r1 = dropWhile is_digit r;
            has_point = (r1 \<noteq> [] \<and> hd r1 = 46);
            fp = (if has_point then takeWhile is_digit (tl r1) else []);
            r2 = (if has_point then dropWhile is_digit (tl r1) else r1);
            m = real (digits_value (ip @ fp))
        in
        if ip = [] \<and> fp = [] then None
        else if r2 = [] then Some (neg, m * ipow 10 (- int (length fp)))
        else if hd r2 \<noteq> 101 \<and> hd r2 \<noteq> 69 then None
        else (case parse_sign (tl r2) of (eneg, ds) \<Rightarrow>
          if ds = [] \<or> \<not> list_all is_digit ds then None
          else Some (neg, m * ipow 10
                 ((if eneg then - int (digits_value ds) else int (digits_value ds))
                  - int (length fp)))))"

text \<open>
  The binary64 number nearest to a positive real \<open>x\<close>, ties going to the even significand.
  \<open>binexp x\<close> is the exponent \<open>e\<close> with \<open>2 ^ e \<le> x < 2 ^ (e + 1)\<close>, found from the
  bit length of an integer; the numbers of that binade are the multiples of
  \<open>2 ^ (e - 52)\<close>, and below \<open>2 ^ - 1022\<close> the spacing stays that of the subnormal numbers.
  A result of \<open>2 ^ 1024\<close> is out of range and becomes an infinity.
\<close>

fun bit_length :: "nat \<Rightarrow> nat" where
  "bit_length n = (if n = 0 then 0 else Suc (bit_length (n div 2)))"

declare bit_length.simps [simp del]

definition binexp :: "real \<Rightarrow> int" where
  "binexp x =
     (if 1 \<le> x then int (bit_length (nat \<lfloor>x\<rfloor>)) - 1
      else - int (bit_length (nat (\<lceil>1 / x\<rceil> - 1))))"

definition round_half_even :: "real \<Rightarrow> int" where
  "round_half_even y =
     (let f = \<lfloor>y\<rfloor>; d = y - of_int f in
      if d < 1 / 2 then f else if 1 / 2 < d then f + 1 else if even f then f else f + 1)"

definition round_double :: "bool \<Rightarrow> real \<Rightarrow> pyfloat" where
  "round_double neg x =
     (if x = 0 then Finite 0
      else
        let e = max (binexp x) (- 1022);
            q = ipow 2 (e - 52);
            r = of_int (round_half_even (x / q)) * q
        in if ipow 2 1024 \<le> r then (if neg then NegInf else PosInf)
           else Finite (if neg then - r else r))"

definition float_literal :: "pystr \<Rightarrow> pyfloat option" where
  "float_literal s =
     (case inf_or_nan s of
        Some x \<Rightarrow> Some x
      | None \<Rightarrow> map_option (\<lambda>(neg, x). round_double neg x) (decimal s))"

definition py_float :: "pystr \<Rightarrow> exn + pyfloat" where
  "py_float s =
     (let t = c_strip (transform_decimal_and_space_to_ascii s) in
      case (if 95 \<in> set t then drop_underscores 0 t else Some t) of
        None \<Rightarrow> Inl (ValueError (NotAFloat s))
      | Some u \<Rightarrow>
          (case float_literal u of
             None \<Rightarrow> Inl (ValueError (NotAFloat s))
           | Some x \<Rightarrow> Inr x))"

section \<open>Ranking the classes\<close>

text \<open>
  \<open>np.argsort(probabilities)\<close>: numpy is outside the repository. It returns the indices
  of the array in an order in which the values ascend; its default sort, quicksort, is not
  stable, so among the indices of equal values every order is allowed. The ranking is
  therefore modelled over the \<open>argsort\<close> of the numpy installed, and \<open>argsort_spec\<close> says
  what is known of it on an array: the result is a permutation of the indices, and the
  values read in that order ascend. \<open>[-3:]\<close> keeps the last three entries (all of them
  when there are fewer) and \<open>[::-1]\<close> reverses.
\<close>

definition argsort_spec :: "(real list \<Rightarrow> nat list) \<Rightarrow> real list \<Rightarrow> bool" where
  "argsort_spec argsort ps =
     (sort (argsort ps) = [0..<length ps] \<and> sorted (map (\<lambda>i. ps ! i) (argsort ps)))"

definition last3 :: "'a list \<Rightarrow> 'a list" where
  "last3 xs = drop (length xs - 3) xs"

definition top3_indices :: "(real list \<Rightarrow> nat list) \<Rightarrow> real list \<Rightarrow> nat list" where
  "top3_indices argsort probabilities = rev (last3 (argsort probabilities))"

text \<open>
  Two sorts that \<open>argsort_spec\<close> admits. \<open>argsort_insertion\<close> sorts by insertion and
  keeps the indices of equal values in rising order, which is what numpy's quicksort does
  on the short arrays it sorts by insertion; \<open>argsort_falling\<close> leaves them in falling
  order.
\<close>

definition argsort_insertion :: "real list \<Rightarrow> nat list" where
  "argsort_insertion ps = sort_key (\<lambda>i. ps ! i) [0..<length ps]"

definition argsort_falling :: "real list \<Rightarrow> nat list" where
  "argsort_falling ps = sort_key (\<lambda>i. ps ! i) (rev [0..<length ps])"

section \<open>Console, files and the trace of a run\<close>

text \<open>
  Both scripts are straight-line programs that talk to the console and to files. A run is
  modelled by the list of its events, in order, and by how it ends. Each \<open>print\<close>
  statement is a message of its own, carrying the values it formats; \<open>input\<close> prints its
  prompt and reads one line; a file is read or appended to as an event.
\<close>

datatype artifact = SoupPredictorModelPkl | LabelEncoderPkl | FeatureColumnsPkl

datatype prompt = AskDate | AskWeekday | AskWeather | AskTemp | AskInventory | AskSave

datatype msg =
    Started | Rule
  | ModelLoaded | KnownSoups "pystr list" | ModelFilesMissingRunTrainModel
  | TomorrowHeader | UsingDefaultDate pystr | AutoWeekday pystr
  | WeatherOptions | WeatherCode int | Temperature pyfloat | IsWeekend bool
  | MonthSeason nat nat
  | PantryHeader | KnownIngredients "pystr list"
  | Analysing
  | ResultHeader | FirstChoice pystr | Confidence real | ReasonLabel
  | Inventory "pystr list" | IfCook pystr
  | UsuallyNeeds "pystr list" | MissingIngredients "pystr list" | ReadyToCook | SeeHistory
  | AlternativesHeader | Alternative nat pystr real
  | Tip | SavedToLog

datatype train_msg =
    TrainingStarted | DataLoaded nat | PreparingData | FeatureCount nat | FeatureKinds nat
  | TargetCount nat | TargetNames "pystr list"
  | SplitSizes nat nat | CannotStratify | RandomSplitSizes nat nat | AllUsedForFitting nat
  | FittingModel | ModelFitted
  | EvaluationHeader | Accuracy real | ReportHeader | ClassificationReport
  | EvaluationSkipped
  | ImportanceHeader | TopFiveHeader | ImportanceTable "(pystr \<times> real) list"
  | SavingModel | ModelSaved | EncoderSaved | TrainingDone nat | SelfTestHeader

datatype event =
    Print msg
  | TrainPrint train_msg
  | Input prompt
  | JoblibLoad artifact
  | JoblibDump artifact
  | ReadCsv
  | AppendLog pystr pystr real pystr pyfloat

text \<open>
  A step of a script takes the lines still waiting on standard input and returns the events
  it caused, its value or the exception it raised, and the lines left.
\<close>

type_synonym 'a io = "pystr list \<Rightarrow> event list \<times> (exn + 'a) \<times> pystr list"

definition ret :: "'a \<Rightarrow> 'a io" where
  "ret x = (\<lambda>s. ([], Inr x, s))"

definition raise :: "exn \<Rightarrow> 'a io" where
  "raise e = (\<lambda>s. ([], Inl e, s))"

definition io_bind :: "'a io \<Rightarrow> ('a \<Rightarrow> 'b io) \<Rightarrow> 'b io" where
  "io_bind m f = (\<lambda>s. case m s of
       (es, Inl e, s') \<Rightarrow> (es, Inl e, s')
     | (es, Inr x, s') \<Rightarrow> (case f x s' of (es', r, s'') \<Rightarrow> (es @ es', r, s'')))"

definition io_seq :: "unit io \<Rightarrow> 'b io \<Rightarrow> 'b io" where
  "io_seq m k = io_bind m (\<lambda>_. k)"

definition emit :: "event \<Rightarrow> unit io" where
  "emit e = (\<lambda>s. ([e], Inr (), s))"

definition print :: "msg \<Rightarrow> unit io" where
  "print m = emit (Print m)"

text \<open>A pure computation that may raise.\<close>

definition lift :: "exn + 'a \<Rightarrow> 'a io" where
  "lift r = (case r of Inl e \<Rightarrow> raise e | Inr x \<Rightarrow> ret x)"

text \<open>\<open>input(prompt)\<close>: at the end of standard input it raises \<open>EOFError\<close>.\<close>

definition input :: "prompt \<Rightarrow> pystr io" where
  "input p = (\<lambda>s. case s of
       [] \<Rightarrow> ([Input p], Inl EOFError, [])
     | l # ls \<Rightarrow> ([Input p], Inr l, ls))"

text \<open>\<open>try: m except FileNotFoundError: h\<close>.\<close>

definition try_except_FileNotFoundError :: "'a io \<Rightarrow> 'a io \<Rightarrow> 'a io" where
  "try_except_FileNotFoundError m h = (\<lambda>s. case m s of
       (es, Inl e, s') \<Rightarrow>
         if e = FileNotFoundError then (case h s' of (es', r, s'') \<Rightarrow> (es @ es', r, s''))
         else (es, Inl e, s')
     | (es, Inr x, s') \<Rightarrow> (es, Inr x, s'))"

text \<open>A file that holds a value of the expected kind, or is absent. \<open>joblib.load\<close> and
  \<open>pd.read_csv\<close> raise \<open>FileNotFoundError\<close> on an absent file.\<close>

definition joblib_load :: "artifact \<Rightarrow> 'a option \<Rightarrow> 'a io" where
  "joblib_load a file =
     io_seq (emit (JoblibLoad a))
       (case file of None \<Rightarrow> raise FileNotFoundError | Some v \<Rightarrow> ret v)"

definition read_csv :: "'a option \<Rightarrow> 'a io" where
  "read_csv file =
     io_seq (emit ReadCsv)
       (case file of None \<Rightarrow> raise FileNotFoundError | Some v \<Rightarrow> ret v)"

text \<open>How a run ends: it reaches the end of the script, it calls \<open>exit()\<close>, or an exception
  nobody catches ends it with a traceback.\<close>

datatype outcome = Finished | Exited | Uncaught exn

definition run :: "'a io \<Rightarrow> pystr list \<Rightarrow> event list \<times> outcome" where
  "run script lines = (case script lines of
       (es, Inl e, _) \<Rightarrow> (es, if e = SystemExit then Exited else Uncaught e)
     | (es, Inr _, _) \<Rightarrow> (es, Finished))"

section \<open>The history table and the persisted artifacts\<close>

text \<open>
  The history file as \<open>pd.read_csv\<close> returns it: the column names and the rows. A row has
  its soup label and, for a column name, the number in that cell (\<open>None\<close> for an empty
  cell, which pandas reads as NaN). The column names of the scripts are Chinese; they are
  given by their code points: \<open>col_soup\<close> is the label column, \<open>ingredient_prefix\<close> is
  the prefix of every ingredient column.
\<close>

record hrow =
  label :: pystr
  cell :: "pystr \<Rightarrow> real option"

record history =
  columns :: "pystr list"
  rows :: "hrow list"

definition col_temp :: pystr where "col_temp = [28201, 24230]"
definition col_weather :: pystr where "col_weather = [22825, 27668, 32534, 30721]"
definition col_month :: pystr where "col_month = [26376, 20221]"
definition col_season :: pystr where "col_season = [23395, 33410, 32534, 30721]"
definition col_weekend :: pystr where "col_weekend = [26159, 21542, 21608, 26411]"
definition col_feedback :: pystr where "col_feedback = [21453, 39304, 20998, 25968]"
definition col_soup :: pystr where "col_soup = [27748, 21517]"
definition ingredient_prefix :: pystr where "ingredient_prefix = [39135, 26448, 95]"

definition is_ingredient_col :: "pystr \<Rightarrow> bool" where
  "is_ingredient_col col = startswith col ingredient_prefix"

text \<open>\<open>col.replace(prefix, '')\<close>: the ingredient a column stands for.\<close>

definition ingredient_name :: "pystr \<Rightarrow> pystr" where
  "ingredient_name col = remove_all ingredient_prefix col"

text \<open>The classifier is opaque: given a feature vector, \<open>predict_proba\<close> returns one
  probability per class, or raises. The environment of a run is the three artifact files
  and the history file, each present or absent, the clock, and the \<open>argsort\<close> of the numpy
  installed.\<close>

type_synonym classifier = "pyfloat list \<Rightarrow> real list option"

record env =
  soup_predictor_model_pkl :: "classifier option"
  label_encoder_pkl :: "pystr list option"
  feature_columns_pkl :: "pystr list option"
  history_cleaned_csv :: "history option"
  now :: date
  np_argsort :: "real list \<Rightarrow> nat list"

section \<open>predict.py\<close>

subsection \<open>Step 1: load the trained model\<close>

definition load_model :: "env \<Rightarrow> (classifier \<times> pystr list \<times> pystr list) io" where
  "load_model e =
     try_except_FileNotFoundError
       (io_bind (joblib_load SoupPredictorModelPkl (soup_predictor_model_pkl e)) (\<lambda>model.
        io_bind (joblib_load LabelEncoderPkl (label_encoder_pkl e)) (\<lambda>classes.
        io_bind (joblib_load FeatureColumnsPkl (feature_columns_pkl e)) (\<lambda>feature_columns.
        io_seq (print ModelLoaded) (
        io_seq (print (KnownSoups classes)) (
        ret (model, classes, feature_columns)))))))
       (io_seq (print ModelFilesMissingRunTrainModel) (raise SystemExit))"

subsection \<open>Step 2: tomorrow's date, weekday, weather and temperature\<close>

record answers =
  ans_date_input :: pystr
  ans_weekday :: pystr
  ans_weather_str :: pystr
  ans_weather_code :: int
  ans_temp :: pyfloat
  ans_is_weekend :: nat
  ans_month :: nat
  ans_season :: nat

definition read_date :: "date \<Rightarrow> pystr io" where
  "read_date today =
     io_bind (input AskDate) (\<lambda>line.
     let date_input = strip line in
     if date_input = [] then
       io_bind (lift (add_one_day today)) (\<lambda>tomorrow.
       io_seq (print (UsingDefaultDate (strftime tomorrow))) (
       ret (strftime tomorrow)))
     else ret date_input)"

definition read_weekday :: "pystr \<Rightarrow> pystr io" where
  "read_weekday date_input =
     io_bind (input AskWeekday) (\<lambda>line.
     let weekday = strip line in
     if weekday = [] then
       io_bind (lift (strptime date_input)) (\<lambda>dt.
       io_seq (print (AutoWeekday [digit_char (isoweekday dt)])) (
       ret [digit_char (isoweekday dt)]))
     else ret weekday)"

text \<open>The weather words (sunny 3, cloudy 2, overcast 1, rain 0, light rain 0, humid 1,
  dry 3) and \<open>weather_map.get(weather_str, 2)\<close>.\<close>

definition weather_map :: "(pystr \<times> int) list" where
  "weather_map = [([26228], 3), ([22810, 20113], 2), ([38452], 1), ([38632], 0),
     ([23567, 38632], 0), ([28526, 28287], 1), ([24178, 29157], 3)]"

definition weather_map_get :: "pystr \<Rightarrow> int" where
  "weather_map_get weather_str =
     (case map_of weather_map weather_str of None \<Rightarrow> 2 | Some c \<Rightarrow> c)"

definition read_temp :: "pyfloat io" where
  "read_temp =
     io_bind (input AskTemp) (\<lambda>line.
     let temp = (if strip line = [] then ascii ''20'' else strip line) in
     lift (py_float temp))"

definition weekend_flag :: "pystr \<Rightarrow> nat" where
  "weekend_flag weekday = (if weekday \<in> set [ascii ''6'', ascii ''7''] then 1 else 0)"

definition season_code :: "nat \<Rightarrow> nat" where
  "season_code month =
     (if month \<in> set [3, 4, 5] then 1 else if month \<in> set [6, 7, 8] then 2
      else if month \<in> set [9, 10, 11] then 3 else 4)"

definition read_tomorrow :: "date \<Rightarrow> answers io" where
  "read_tomorrow today =
     io_seq (print TomorrowHeader) (
     io_bind (read_date today) (\<lambda>date_input.
     io_bind (read_weekday date_input) (\<lambda>weekday.
     io_seq (print WeatherOptions) (
     io_bind (input AskWeather) (\<lambda>line.
     let weather_str = strip line; weather_code = weather_map_get weather_str in
     io_seq (print (WeatherCode weather_code)) (
     io_bind read_temp (\<lambda>temp.
     io_seq (print (Temperature temp)) (
     let is_weekend = weekend_flag weekday in
     io_seq (print (IsWeekend (is_weekend \<noteq> 0))) (
     io_bind (lift (strptime date_input)) (\<lambda>dt.
     let month = dmonth dt; season = season_code month in
     io_seq (print (MonthSeason month season)) (
     ret \<lparr> ans_date_input = date_input, ans_weekday = weekday,
           ans_weather_str = weather_str, ans_weather_code = weather_code, ans_temp = temp,
           ans_is_weekend = is_weekend, ans_month = month, ans_season = season \<rparr>)))))))))))"

subsection \<open>Step 3: what is in the fridge\<close>

text \<open>The line is split at ASCII and full-width commas (code points 44 and 65292); blank
  items are dropped.\<close>

definition parse_inventory :: "pystr \<Rightarrow> pystr list" where
  "parse_inventory line =
     [strip i. i \<leftarrow> split 44 (replace_char 65292 44 (strip line)), strip i \<noteq> []]"

definition read_inventory :: "pystr list \<Rightarrow> pystr list io" where
  "read_inventory feature_columns =
     io_seq (print PantryHeader) (
     io_seq (print (KnownIngredients
        [ingredient_name col. col \<leftarrow> feature_columns, is_ingredient_col col])) (
     io_bind (input AskInventory) (\<lambda>line.
     ret (parse_inventory line))))"

subsection \<open>Step 4: the feature vector\<close>

text \<open>The one-row data frame, as a map from column name to value: six fixed columns (the
  feedback score is the constant 75), then one column per ingredient column of the schema,
  1 when the ingredient is in the fridge and 0 otherwise.\<close>

definition tomorrow_data :: "answers \<Rightarrow> (pystr \<rightharpoonup> pyfloat)" where
  "tomorrow_data a = map_of
     [(col_temp, ans_temp a), (col_weather, Finite (of_int (ans_weather_code a))),
      (col_month, Finite (real (ans_month a))), (col_season, Finite (real (ans_season a))),
      (col_weekend, Finite (real (ans_is_weekend a))), (col_feedback, Finite 75)]"

definition add_ingredient_features ::
    "pystr list \<Rightarrow> pystr list \<Rightarrow> (pystr \<rightharpoonup> pyfloat) \<Rightarrow> (pystr \<rightharpoonup> pyfloat)" where
  "add_ingredient_features feature_columns inventory_list df =
     foldl (\<lambda>df col.
        if is_ingredient_col col
        then df(col \<mapsto> (if ingredient_name col \<in> set inventory_list then Finite 1 else Finite 0))
        else df) df feature_columns"

text \<open>\<open>df[feature_columns]\<close>: the values in the order of the list; a name that is not a
  column raises \<open>KeyError\<close>.\<close>

definition select_columns :: "(pystr \<rightharpoonup> pyfloat) \<Rightarrow> pystr list \<Rightarrow> exn + pyfloat list" where
  "select_columns df cols =
     (case those (map df cols) of
        None \<Rightarrow> Inl (KeyError (filter (\<lambda>c. df c = None) cols))
      | Some v \<Rightarrow> Inr v)"

definition tomorrow_features ::
    "answers \<Rightarrow> pystr list \<Rightarrow> pystr list \<Rightarrow> exn + pyfloat list" where
  "tomorrow_features a inventory_list feature_columns =
     select_columns (add_ingredient_features feature_columns inventory_list (tomorrow_data a))
       feature_columns"

subsection \<open>Step 5: predict\<close>

definition predict_proba :: "classifier \<Rightarrow> pyfloat list \<Rightarrow> exn + real list" where
  "predict_proba model x =
     (case model x of None \<Rightarrow> Inl (ValueError PredictProba) | Some ps \<Rightarrow> Inr ps)"

text \<open>\<open>label_encoder.inverse_transform\<close>: an index outside the vocabulary is a
  \<open>ValueError\<close>.\<close>

definition inverse_transform :: "pystr list \<Rightarrow> nat list \<Rightarrow> exn + pystr list" where
  "inverse_transform classes idx =
     (if \<exists>i \<in> set idx. length classes \<le> i then Inl (ValueError UnseenLabels)
      else Inr (map (\<lambda>i. classes ! i) idx))"

subsection \<open>Step 6: report\<close>

text \<open>Indexing at 0, as in \<open>top3_soups[0]\<close>: an empty sequence has no such item.\<close>

definition first_item :: "'a list \<Rightarrow> exn + 'a" where
  "first_item xs = (if xs = [] then Inl IndexError else Inr (hd xs))"

text \<open>The rationale list the script builds: plenty of time at the weekend, overcast or
  rainy weather, low temperature, hot weather.\<close>

datatype reason = WeekendSlowSoup | GreyWeatherWarmingSoup | ColdNeedsWarming | HotNeedsLight

definition reasons :: "nat \<Rightarrow> int \<Rightarrow> pyfloat \<Rightarrow> reason list" where
  "reasons is_weekend weather_code temp =
     (if is_weekend \<noteq> 0 then [WeekendSlowSoup] else [])
     @ (if weather_code \<le> 1 then [GreyWeatherWarmingSoup] else [])
     @ (if float_lt temp 15 then [ColdNeedsWarming]
        else if float_gt temp 28 then [HotNeedsLight] else [])"

text \<open>\<open>soup_history[col].mean()\<close> skips empty cells; the mean of no value at all is NaN,
  which is not greater than 0.5.\<close>

definition column_mean :: "hrow list \<Rightarrow> pystr \<Rightarrow> real option" where
  "column_mean rs col =
     (let vs = List.map_filter (\<lambda>r. cell r col) rs
      in if vs = [] then None else Some (sum_list vs / real (length vs)))"

definition mean_above_half :: "hrow list \<Rightarrow> pystr \<Rightarrow> bool" where
  "mean_above_half rs col = (case column_mean rs col of None \<Rightarrow> False | Some m \<Rightarrow> m > 1/2)"

fun typical_ingredients :: "pystr list \<Rightarrow> hrow list \<Rightarrow> pystr list \<Rightarrow> exn + pystr list" where
  "typical_ingredients hcols soup_history [] = Inr []"
| "typical_ingredients hcols soup_history (col # cols) =
     (if is_ingredient_col col then
        (if col \<notin> set hcols then Inl (KeyError [col])
         else (case typical_ingredients hcols soup_history cols of
                 Inl e \<Rightarrow> Inl e
               | Inr rest \<Rightarrow>
                   Inr (if mean_above_half soup_history col
                        then ingredient_name col # rest else rest)))
      else typical_ingredients hcols soup_history cols)"

definition missing_ingredients :: "pystr list \<Rightarrow> pystr list \<Rightarrow> pystr list" where
  "missing_ingredients typical inventory_list =
     [ing. ing \<leftarrow> typical, ing \<notin> set inventory_list]"

definition check_recipe ::
    "history option \<Rightarrow> pystr list \<Rightarrow> pystr list \<Rightarrow> pystr \<Rightarrow> unit io" where
  "check_recipe file feature_columns inventory_list top_soup =
     io_bind (read_csv file) (\<lambda>history_df.
     if col_soup \<notin> set (columns history_df) then raise (KeyError [col_soup])
     else
       let soup_history = filter (\<lambda>r. label r = top_soup) (rows history_df) in
       if soup_history \<noteq> [] then
         io_bind (lift (typical_ingredients (columns history_df) soup_history feature_columns))
           (\<lambda>typical.
         io_seq (print (UsuallyNeeds typical)) (
         let missing = missing_ingredients typical inventory_list in
         if missing \<noteq> [] then print (MissingIngredients missing) else print ReadyToCook))
       else print SeeHistory)"

text \<open>The second and third candidates, shown above a probability of 5 percent.\<close>

fun alternatives :: "nat \<Rightarrow> pystr list \<Rightarrow> real list \<Rightarrow> unit io" where
  "alternatives i (s # ss) (p # ps) =
     io_seq (if p > 5 / 100 then print (Alternative (i + 1) s p) else ret ())
       (alternatives (i + 1) ss ps)"
| "alternatives i _ _ = ret ()"

definition save_record :: "answers \<Rightarrow> pystr \<Rightarrow> real \<Rightarrow> unit io" where
  "save_record a top_soup p =
     io_bind (input AskSave) (\<lambda>line.
     if strip line \<in> set [ascii ''y'', ascii ''Y''] then
       io_seq (emit (AppendLog (ans_date_input a) top_soup p (ans_weather_str a) (ans_temp a))) (
       print SavedToLog)
     else ret ())"

definition report ::
    "env \<Rightarrow> answers \<Rightarrow> pystr list \<Rightarrow> pystr list \<Rightarrow> pystr list \<Rightarrow> real list \<Rightarrow> unit io" where
  "report e a feature_columns inventory_list top3_soups top3_probs =
     io_seq (print Rule) (
     io_seq (print ResultHeader) (
     io_seq (print Rule) (
     io_bind (lift (first_item top3_soups)) (\<lambda>top_soup.
     io_seq (print (FirstChoice top_soup)) (
     io_bind (lift (first_item top3_probs)) (\<lambda>p.
     io_seq (print (Confidence p)) (
     io_seq (print ReasonLabel) (
     let rationale = reasons (ans_is_weekend a) (ans_weather_code a) (ans_temp a) in
     io_seq (print (Inventory inventory_list)) (
     io_seq (print (IfCook top_soup)) (
     io_seq (check_recipe (history_cleaned_csv e) feature_columns inventory_list top_soup) (
     io_seq (if length top3_soups > 1
             then io_seq (print AlternativesHeader)
                    (alternatives 1 (tl top3_soups) (tl top3_probs))
             else ret ()) (
     io_seq (print Rule) (
     io_seq (print Tip) (
     io_seq (print Rule) (
     save_record a top_soup p)))))))))))))))"

subsection \<open>The script\<close>

text \<open>Steps 1 to 5: everything up to the ranked candidates. Step 6 reports them.\<close>

definition rank_soups ::
    "env \<Rightarrow> (answers \<times> pystr list \<times> pystr list \<times> pystr list \<times> real list) io" where
  "rank_soups e =
     io_seq (print Started) (
     io_seq (print Rule) (
     io_bind (load_model e) (\<lambda>(model, classes, feature_columns).
     io_bind (read_tomorrow (now e)) (\<lambda>a.
     io_bind (read_inventory feature_columns) (\<lambda>inventory_list.
     io_seq (print Analysing) (
     io_bind (lift (tomorrow_features a inventory_list feature_columns)) (\<lambda>x.
     io_bind (lift (predict_proba model x)) (\<lambda>probabilities.
     let top3 = top3_indices (np_argsort e) probabilities in
     io_bind (lift (inverse_transform classes top3)) (\<lambda>top3_soups.
     let top3_probs = map (\<lambda>i. probabilities ! i) top3 in
     ret (a, feature_columns, inventory_list, top3_soups, top3_probs))))))))))"

definition predict :: "env \<Rightarrow> unit io" where
  "predict e =
     io_bind (rank_soups e) (\<lambda>(a, feature_columns, inventory_list, top3_soups, top3_probs).
     report e a feature_columns inventory_list top3_soups top3_probs)"

section \<open>train_model.py\<close>

text \<open>
  scikit-learn is outside the repository; the trainer is modelled over what it calls:
  \<open>train_test_split X y test_size random_state stratify\<close> returns the two partitions
  or raises \<open>ValueError\<close> (\<open>None\<close>); \<open>fit\<close> is
  \<open>RandomForestClassifier(...).fit\<close>, which returns the fitted classifier or raises
  \<open>ValueError\<close>; \<open>accuracy\<close> is \<open>accuracy_score\<close> of the predictions on the test
  rows; \<open>classification_report\<close> tells whether the report is produced or raises
  \<open>ValueError\<close>; \<open>feature_importances\<close> is the attribute of the fitted model.
  A training row is its feature values and its encoded label.
\<close>

type_synonym sample = "real list \<times> nat"

record sklearn =
  train_test_split ::
    "sample list \<Rightarrow> real \<Rightarrow> nat \<Rightarrow> nat list option \<Rightarrow> (sample list \<times> sample list) option"
  fit :: "sample list \<Rightarrow> classifier option"
  accuracy :: "classifier \<Rightarrow> sample list \<Rightarrow> real"
  classification_report :: "classifier \<Rightarrow> sample list \<Rightarrow> bool"
  feature_importances :: "classifier \<Rightarrow> real list"

definition tprint :: "train_msg \<Rightarrow> unit io" where
  "tprint m = emit (TrainPrint m)"

subsection \<open>Step 2: features and labels\<close>

definition fixed_columns :: "pystr list" where
  "fixed_columns = [col_temp, col_weather, col_month, col_season, col_weekend, col_feedback]"

text \<open>\<open>history_df[feature_columns].fillna(0)\<close> and \<open>history_df[col_soup]\<close>.\<close>

definition feature_matrix :: "history \<Rightarrow> pystr list \<Rightarrow> exn + real list list" where
  "feature_matrix h cols =
     (if \<exists>c \<in> set cols. c \<notin> set (columns h)
      then Inl (KeyError (filter (\<lambda>c. c \<notin> set (columns h)) cols))
      else Inr (map (\<lambda>r. map (\<lambda>c. case cell r c of None \<Rightarrow> 0 | Some v \<Rightarrow> v) cols) (rows h)))"

definition label_column :: "history \<Rightarrow> exn + pystr list" where
  "label_column h =
     (if col_soup \<notin> set (columns h) then Inl (KeyError [col_soup])
      else Inr (map label (rows h)))"

text \<open>\<open>LabelEncoder().fit_transform(y)\<close>: the vocabulary is the sorted distinct labels,
  and each label is encoded by its position there.\<close>

fun index_of :: "'a list \<Rightarrow> 'a \<Rightarrow> nat" where
  "index_of [] x = 0"
| "index_of (y # ys) x = (if x = y then 0 else Suc (index_of ys x))"

definition fit_transform :: "pystr list \<Rightarrow> pystr list \<times> nat list" where
  "fit_transform y = (let classes = sort (remdups y) in (classes, map (index_of classes) y))"

subsection \<open>Step 3: training and test partitions\<close>

definition split_data ::
    "sklearn \<Rightarrow> nat \<Rightarrow> sample list \<Rightarrow> (sample list \<times> sample list option) io" where
  "split_data lib n samples =
     (if n \<ge> 15 then
        (case train_test_split lib samples (2 / 10) 42 (Some (map snd samples)) of
           Some (train, test) \<Rightarrow>
             io_seq (tprint (SplitSizes (length train) (length test))) (
             ret (train, Some test))
         | None \<Rightarrow>
             io_seq (tprint CannotStratify) (
             case train_test_split lib samples (2 / 10) 42 None of
               Some (train, test) \<Rightarrow>
                 io_seq (tprint (RandomSplitSizes (length train) (length test))) (
                 ret (train, Some test))
             | None \<Rightarrow> raise (ValueError SplitFailed)))
      else
        io_seq (tprint (AllUsedForFitting n)) (
        ret (samples, None)))"

subsection \<open>Steps 4 to 7: fit, evaluate, explain, save\<close>

definition fit_model :: "sklearn \<Rightarrow> sample list \<Rightarrow> classifier io" where
  "fit_model lib train =
     io_seq (tprint FittingModel) (
     io_bind (case fit lib train of None \<Rightarrow> raise (ValueError FitFailed) | Some m \<Rightarrow> ret m)
       (\<lambda>model.
     io_seq (tprint ModelFitted) (
     ret model)))"

definition evaluate :: "sklearn \<Rightarrow> classifier \<Rightarrow> sample list option \<Rightarrow> unit io" where
  "evaluate lib model test =
     (case test of
        Some rows_test \<Rightarrow>
          io_seq (tprint EvaluationHeader) (
          io_seq (tprint (Accuracy (accuracy lib model rows_test))) (
          io_seq (tprint ReportHeader) (
          if classification_report lib model rows_test then tprint ClassificationReport
          else raise (ValueError ReportFailed))))
      | None \<Rightarrow> tprint EvaluationSkipped)"

text \<open>The importance table; the script prints its five rows of largest importance.\<close>

definition explain :: "sklearn \<Rightarrow> classifier \<Rightarrow> pystr list \<Rightarrow> unit io" where
  "explain lib model feature_columns =
     io_seq (tprint ImportanceHeader) (
     io_seq (tprint TopFiveHeader) (
     tprint (ImportanceTable (zip feature_columns (feature_importances lib model)))))"

definition save_model :: "nat \<Rightarrow> unit io" where
  "save_model n_classes =
     io_seq (tprint SavingModel) (
     io_seq (emit (JoblibDump SoupPredictorModelPkl)) (
     io_seq (emit (JoblibDump LabelEncoderPkl)) (
     io_seq (emit (JoblibDump FeatureColumnsPkl)) (
     io_seq (tprint ModelSaved) (
     io_seq (tprint EncoderSaved) (
     io_seq (tprint (TrainingDone n_classes)) (
     tprint SelfTestHeader)))))))"

subsection \<open>The script\<close>

text \<open>The value of a run is the triple it saved: classifier, label vocabulary and feature
  schema.\<close>

definition train ::
    "sklearn \<Rightarrow> history option \<Rightarrow> (classifier \<times> pystr list \<times> pystr list) io" where
  "train lib file =
     io_seq (tprint TrainingStarted) (
     io_bind (read_csv file) (\<lambda>history_df.
     io_seq (tprint (DataLoaded (length (rows history_df)))) (
     io_seq (tprint PreparingData) (
     let ingredient_cols = filter is_ingredient_col (columns history_df);
         feature_columns = fixed_columns @ ingredient_cols in
     io_seq (tprint (FeatureCount (length feature_columns))) (
     io_seq (tprint (FeatureKinds (length ingredient_cols))) (
     io_bind (lift (feature_matrix history_df feature_columns)) (\<lambda>X.
     io_bind (lift (label_column history_df)) (\<lambda>y.
     let (classes, y_encoded) = fit_transform y in
     io_seq (tprint (TargetCount (length classes))) (
     io_seq (tprint (TargetNames classes)) (
     io_bind (split_data lib (length (rows history_df)) (zip X y_encoded)) (\<lambda>(train, test).
     io_bind (fit_model lib train) (\<lambda>model.
     io_seq (evaluate lib model test) (
     io_seq (explain lib model feature_columns) (
     io_seq (save_model (length classes)) (
     ret (model, classes, feature_columns))))))))))))))))"

section \<open>Notions used to state the properties\<close>

text \<open>The artifacts \<open>load_model\<close> tries to load before one turns out to be absent.\<close>

definition attempted_loads :: "env \<Rightarrow> artifact list" where
  "attempted_loads e =
     (if soup_predictor_model_pkl e = None then [SoupPredictorModelPkl]
      else if label_encoder_pkl e = None then [SoupPredictorModelPkl, LabelEncoderPkl]
      else [SoupPredictorModelPkl, LabelEncoderPkl, FeatureColumnsPkl])"

text \<open>The text handed to \<open>float\<close> for a line typed at the temperature prompt.\<close>

definition temp_text :: "pystr \<Rightarrow> pystr" where
  "temp_text line = (if strip line = [] then ascii ''20'' else strip line)"

text \<open>A step that never causes the event \<open>ev\<close>.\<close>

definition avoids :: "event \<Rightarrow> 'a io \<Rightarrow> bool" where
  "avoids ev m = (\<forall>s. ev \<notin> set (fst (m s)))"

text \<open>What the feature named \<open>col\<close> is for tomorrow: the schema's view of the
  encoding.\<close>

definition feature_value :: "answers \<Rightarrow> pystr list \<Rightarrow> pystr \<Rightarrow> pyfloat" where
  "feature_value a pantry col =
     (if is_ingredient_col col
        then (if ingredient_name col \<in> set pantry then Finite 1 else Finite 0)
      else if col = col_temp then ans_temp a
      else if col = col_weather then Finite (of_int (ans_weather_code a))
      else if col = col_month then Finite (real (ans_month a))
      else if col = col_season then Finite (real (ans_season a))
      else if col = col_weekend then Finite (real (ans_is_weekend a))
      else Finite 75)"

definition valid_schema :: "pystr list \<Rightarrow> bool" where
  "valid_schema S = (\<forall>col \<in> set S. col \<in> set fixed_columns \<or> is_ingredient_col col)"

definition schema_ingredients :: "pystr list \<Rightarrow> pystr set" where
  "schema_ingredients S = set [ingredient_name col. col \<leftarrow> S, is_ingredient_col col]"

text \<open>An ingredient column marks presence by 1 and absence by 0; the ingredient is in more
  than half of the rows when twice the number of rows that have it exceeds the number of
  rows.\<close>

definition presence_marked :: "hrow list \<Rightarrow> pystr \<Rightarrow> bool" where
  "presence_marked rs col = (\<forall>r \<in> set rs. cell r col = Some 0 \<or> cell r col = Some 1)"

definition in_more_than_half :: "hrow list \<Rightarrow> pystr \<Rightarrow> bool" where
  "in_more_than_half rs col = (length rs < 2 * length (filter (\<lambda>r. cell r col = Some 1) rs))"

text \<open>The feature schema the trainer derives from a history table, and its training rows:
  empty cells count as 0, labels are encoded by the vocabulary.\<close>

definition training_columns :: "history \<Rightarrow> pystr list" where
  "training_columns h = fixed_columns @ filter is_ingredient_col (columns h)"

definition vocabulary :: "history \<Rightarrow> pystr list" where
  "vocabulary h = fst (fit_transform (map label (rows h)))"

definition training_samples :: "history \<Rightarrow> sample list" where
  "training_samples h =
     zip (map (\<lambda>r. map (\<lambda>c. case cell r c of None \<Rightarrow> 0 | Some v \<Rightarrow> v) (training_columns h))
            (rows h))
         (snd (fit_transform (map label (rows h))))"

text \<open>The events of a trainer run that gets through: \<open>es_split\<close> are the events of
  the split step and \<open>es_eval\<close> those of the evaluation step.\<close>

definition train_trace ::
    "sklearn \<Rightarrow> history \<Rightarrow> classifier \<Rightarrow> event list \<Rightarrow> event list \<Rightarrow> event list" where
  "train_trace lib h model es_split es_eval =
     [TrainPrint TrainingStarted, ReadCsv, TrainPrint (DataLoaded (length (rows h))),
      TrainPrint PreparingData, TrainPrint (FeatureCount (length (training_columns h))),
      TrainPrint (FeatureKinds (length (filter is_ingredient_col (columns h)))),
      TrainPrint (TargetCount (length (vocabulary h))), TrainPrint (TargetNames (vocabulary h))]
     @ es_split @ [TrainPrint FittingModel, TrainPrint ModelFitted] @ es_eval @
     [TrainPrint ImportanceHeader, TrainPrint TopFiveHeader,
      TrainPrint (ImportanceTable (zip (training_columns h) (feature_importances lib model))),
      TrainPrint SavingModel, JoblibDump SoupPredictorModelPkl, JoblibDump LabelEncoderPkl,
      JoblibDump FeatureColumnsPkl, TrainPrint ModelSaved, TrainPrint EncoderSaved,
      TrainPrint (TrainingDone (length (vocabulary h))), TrainPrint SelfTestHeader]"

text \<open>The events of a predictor run up to the first recommendation, and the closing steps
  after the recipe check.\<close>

definition first_choice_events :: "pystr list \<Rightarrow> pystr \<Rightarrow> real \<Rightarrow> event list" where
  "first_choice_events pantry top_soup p =
     [Print Rule, Print ResultHeader, Print Rule, Print (FirstChoice top_soup),
      Print (Confidence p), Print ReasonLabel, Print (Inventory pantry), Print (IfCook top_soup)]"

definition closing :: "answers \<Rightarrow> pystr list \<Rightarrow> real list \<Rightarrow> unit io" where
  "closing a top3_soups top3_probs =
     io_seq (if length top3_soups > 1
             then io_seq (print AlternativesHeader)
                    (alternatives 1 (tl top3_soups) (tl top3_probs))
             else ret ()) (
     io_seq (print Rule) (
     io_seq (print Tip) (
     io_seq (print Rule) (
     save_record a (hd top3_soups) (hd top3_probs)))))"

section \<open>Example data\<close>

text \<open>A trained triple over three ingredients, a short history, a clock and the insertion
  sort for numpy's; the names are written in ASCII after the ingredient prefix.\<close>

definition demo_columns :: "pystr list" where
  "demo_columns = fixed_columns @
     [ingredient_prefix @ ascii ''pork ribs'', ingredient_prefix @ ascii ''corn'',
      ingredient_prefix @ ascii ''carrot'']"

definition demo_classes :: "pystr list" where
  "demo_classes = [ascii ''corn rib soup'', ascii ''lotus soup'', ascii ''melon soup'']"

definition demo_model :: classifier where
  "demo_model x = (if length x = 9 then Some [3/5, 1/10, 3/10] else None)"

definition demo_row :: "pystr \<Rightarrow> real \<Rightarrow> real \<Rightarrow> real \<Rightarrow> hrow" where
  "demo_row soup ribs corn carrot =
     \<lparr> label = soup,
       cell = (\<lambda>col. if col = ingredient_prefix @ ascii ''pork ribs'' then Some ribs
                     else if col = ingredient_prefix @ ascii ''corn'' then Some corn
                     else if col = ingredient_prefix @ ascii ''carrot'' then Some carrot
                     else Some 20) \<rparr>"

definition demo_history :: history where
  "demo_history =
     \<lparr> columns = col_soup # demo_columns,
       rows = [demo_row (ascii ''corn rib soup'') 1 1 1, demo_row (ascii ''lotus soup'') 1 0 0,
               demo_row (ascii ''corn rib soup'') 1 1 1, demo_row (ascii ''corn rib soup'') 1 0 0] \<rparr>"

definition demo_env :: env where
  "demo_env =
     \<lparr> soup_predictor_model_pkl = Some demo_model, label_encoder_pkl = Some demo_classes,
       feature_columns_pkl = Some demo_columns, history_cleaned_csv = Some demo_history,
       now = Date 2024 2 2, np_argsort = argsort_insertion \<rparr>"

text \<open>The weather word for rain.\<close>

definition rain :: pystr where
  "rain = [38632]"

text \<open>Answers typed at the prompts: two blank lines, rain, 10 degrees, two ingredients and
  no to saving; what they resolve to on the example clock; and the history rows of the first
  class.\<close>

definition demo_lines :: "pystr list" where
  "demo_lines = [[], [], rain, ascii ''10'', ascii ''pork ribs, corn'', ascii ''n'']"

definition demo_answers :: answers where
  "demo_answers =
     \<lparr> ans_date_input = ascii ''2024-02-03'', ans_weekday = ascii ''6'',
       ans_weather_str = rain, ans_weather_code = 0, ans_temp = Finite 10,
       ans_is_weekend = 1, ans_month = 2, ans_season = 4 \<rparr>"

definition demo_soup_rows :: "hrow list" where
  "demo_soup_rows = [demo_row (ascii ''corn rib soup'') 1 1 1,
     demo_row (ascii ''corn rib soup'') 1 1 1, demo_row (ascii ''corn rib soup'') 1 0 0]"

text \<open>A stand-in for scikit-learn whose stratified split always raises and whose plain
  split holds out the first four rows, and a history of sixteen records in which one soup
  appears once.\<close>

definition demo_lib :: sklearn where
  "demo_lib =
     \<lparr> train_test_split = (\<lambda>samples test_size random_state stratify.
          case stratify of Some _ \<Rightarrow> None | None \<Rightarrow> Some (drop 4 samples, take 4 samples)),
       fit = (\<lambda>_. Some demo_model), accuracy = (\<lambda>_ _. 1),
       classification_report = (\<lambda>_ _. True), feature_importances = (\<lambda>_. []) \<rparr>"

definition demo_long_history :: history where
  "demo_long_history =
     \<lparr> columns = col_soup # demo_columns,
       rows = replicate 15 (demo_row (ascii ''corn rib soup'') 1 1 1)
              @ [demo_row (ascii ''lotus soup'') 1 0 0] \<rparr>"

section \<open>Properties\<close>

subsection \<open>Ranking\<close>

lemma argsort_spec_set:
  assumes "argsort_spec argsort ps"
  shows "set (argsort ps) = {0..<length ps}"
proof -
  have "set (sort (argsort ps)) = set [0..<length ps]"
    using assms by (simp add: argsort_spec_def)
  then show ?thesis by simp
qed

lemma argsort_spec_length:
  assumes "argsort_spec argsort ps"
  shows "length (argsort ps) = length ps"
proof -
  have "length (sort (argsort ps)) = length [0..<length ps]"
    using assms by (simp add: argsort_spec_def)
  then show ?thesis by simp
qed

lemma argsort_spec_distinct:
  assumes "argsort_spec argsort ps"
  shows "distinct (argsort ps)"
proof -
  have "distinct (sort (argsort ps))"
    using assms by (simp add: argsort_spec_def)
  then show ?thesis by simp
qed

lemma argsort_spec_ascending:
  assumes "argsort_spec argsort ps"
  shows "sorted_wrt (\<lambda>a b. ps ! a \<le> ps ! b) (argsort ps)"
  using assms by (simp add: argsort_spec_def sorted_map)

lemma length_top3_indices:
  assumes "argsort_spec argsort ps"
  shows "length (top3_indices argsort ps) = min 3 (length ps)"
  using argsort_spec_length [OF assms] by (auto simp: top3_indices_def last3_def)

lemma distinct_top3_indices:
  assumes "argsort_spec argsort ps"
  shows "distinct (top3_indices argsort ps)"
  using argsort_spec_distinct [OF assms] by (simp add: top3_indices_def last3_def)

lemma set_top3_indices:
  assumes "argsort_spec argsort ps"
  shows "set (top3_indices argsort ps) \<subseteq> {0..<length ps}"
proof -
  have "set (top3_indices argsort ps) \<subseteq> set (argsort ps)"
    unfolding top3_indices_def last3_def by (simp add: set_drop_subset)
  then show ?thesis by (simp add: argsort_spec_set [OF assms])
qed

lemma descending_top3_indices:
  assumes "argsort_spec argsort ps"
  shows "sorted_wrt (\<ge>) (map (\<lambda>i. ps ! i) (top3_indices argsort ps))"
proof -
  have "sorted_wrt (\<lambda>a b. ps ! a \<le> ps ! b) (last3 (argsort ps))"
    unfolding last3_def by (rule sorted_wrt_drop) (rule argsort_spec_ascending [OF assms])
  then show ?thesis
    by (simp add: top3_indices_def sorted_wrt_rev sorted_wrt_map)
qed

lemma unranked_below_top3:
  assumes "argsort_spec argsort ps"
    and "k < length ps" and "k \<notin> set (top3_indices argsort ps)"
    and "a \<in> set (top3_indices argsort ps)"
  shows "ps ! k \<le> ps ! a"
proof -
  let ?n = "length (argsort ps) - 3"
  have "sorted_wrt (\<lambda>a b. ps ! a \<le> ps ! b) (take ?n (argsort ps) @ drop ?n (argsort ps))"
    using argsort_spec_ascending [OF assms(1)] by simp
  then have cross: "\<forall>x\<in>set (take ?n (argsort ps)). \<forall>y\<in>set (drop ?n (argsort ps)).
      ps ! x \<le> ps ! y"
    unfolding sorted_wrt_append by blast
  have a: "a \<in> set (drop ?n (argsort ps))"
    using assms(4) by (simp add: top3_indices_def last3_def)
  have "k \<in> set (take ?n (argsort ps) @ drop ?n (argsort ps))"
    using assms(2) argsort_spec_set [OF assms(1)] by simp
  then have "k \<in> set (take ?n (argsort ps)) \<union> set (drop ?n (argsort ps))"
    unfolding set_append .
  moreover have "k \<notin> set (drop ?n (argsort ps))"
    using assms(3) by (simp add: top3_indices_def last3_def)
  ultimately have "k \<in> set (take ?n (argsort ps))" by simp
  with cross a show ?thesis by blast
qed

lemma sort_permutation_upt:
  assumes "distinct xs" and "set xs = {0..<n}"
  shows "sort xs = [0..<n]"
  by (rule sorted_distinct_set_unique) (simp_all add: assms)

lemma argsort_insertion_spec: "argsort_spec argsort_insertion ps"
  by (simp add: argsort_spec_def argsort_insertion_def sort_permutation_upt)

lemma argsort_falling_spec: "argsort_spec argsort_falling ps"
  by (simp add: argsort_spec_def argsort_falling_def sort_permutation_upt)

text \<open>
  C2 (as the code has it). Whatever order numpy's \<open>argsort\<close> leaves among equal values,
  for every probability vector the ranking holds the three classes of highest probability,
  all of them when the vocabulary has fewer than three, each once; the probabilities
  reported with them descend, and no class left out has a higher probability than a class
  reported. The order of two classes of equal probability is the reverse of the one
  \<open>argsort\<close> leaves them in, and nothing is known of that one: lower index first is not
  guaranteed.
\<close>

theorem top3_indices_ranking:
  assumes "argsort_spec argsort ps"
  shows "length (top3_indices argsort ps) = min 3 (length ps)
   \<and> distinct (top3_indices argsort ps)
   \<and> set (top3_indices argsort ps) \<subseteq> {0..<length ps}
   \<and> sorted_wrt (\<ge>) (map (\<lambda>i. ps ! i) (top3_indices argsort ps))
   \<and> (\<forall>k a. k < length ps \<and> k \<notin> set (top3_indices argsort ps)
          \<and> a \<in> set (top3_indices argsort ps) \<longrightarrow> ps ! k \<le> ps ! a)"
  using length_top3_indices [OF assms] distinct_top3_indices [OF assms]
    set_top3_indices [OF assms] descending_top3_indices [OF assms]
    unranked_below_top3 [OF assms] by blast

theorem top3_indices_ranking_witness:
  "top3_indices argsort_insertion [1/5, 3/10, 1/10, 3/10, 1/10] = [3, 1, 0]
   \<and> sorted_wrt (\<ge>) (map (\<lambda>i. [1/5, 3/10, 1/10, 3/10, 1/10 :: real] ! i) [3, 1, 0])
   \<and> [1/5, 3/10, 1/10, 3/10, 1/10 :: real] ! 2 \<le> [1/5, 3/10, 1/10, 3/10, 1/10] ! 0"
proof -
  have a: "argsort_insertion [1/5, 3/10, 1/10, 3/10, 1/10] = [2, 4, 0, 1, 3]"
    by (simp add: argsort_insertion_def upt_conv_Cons)
  have s: "argsort_spec argsort_insertion [1/5, 3/10, 1/10, 3/10, 1/10]"
    by (simp add: argsort_spec_def a upt_conv_Cons)
  have t: "top3_indices argsort_insertion [1/5, 3/10, 1/10, 3/10, 1/10] = [3, 1, 0]"
    by (simp add: top3_indices_def last3_def a)
  show ?thesis
    using top3_indices_ranking [OF s] unfolding t by simp
qed

text \<open>
  C2 (as the specification states it) asks for the lower class index first among equal
  probabilities. With two classes of probability one half each and a sort that keeps equal
  values in index order, class 1 is reported before class 0.
\<close>

theorem top3_indices_tie_counterexample:
  "argsort_spec argsort_insertion [1/2, 1/2]
   \<and> top3_indices argsort_insertion [1/2, 1/2] = [1, 0]"
  by (simp add: argsort_spec_def top3_indices_def last3_def argsort_insertion_def)

text \<open>With the sort that leaves equal values in falling index order the same two classes
  come out the other way round: the order among ties is that of the sort.\<close>

lemma tie_order_is_left_open:
  "argsort_spec argsort_falling [1/2, 1/2] \<and> top3_indices argsort_falling [1/2, 1/2] = [0, 1]"
  by (simp add: argsort_spec_def top3_indices_def last3_def argsort_falling_def)

subsection \<open>Running the steps of a script\<close>

lemma io_bind_apply:
  "io_bind m f s = (case m s of
       (es, Inl e, s') \<Rightarrow> (es, Inl e, s')
     | (es, Inr x, s') \<Rightarrow> (case f x s' of (es', r, s'') \<Rightarrow> (es @ es', r, s'')))"
  by (simp add: io_bind_def)

lemma io_bind_ret [simp]: "io_bind (ret x) f = f x"
  by (rule ext) (simp add: io_bind_def ret_def split: prod.splits)

lemma io_bind_raise [simp]: "io_bind (raise e) f = raise e"
  by (rule ext) (simp add: io_bind_def raise_def)

lemma io_seq_ret [simp]: "io_seq (ret x) k = k"
  by (simp add: io_seq_def)

lemma io_seq_raise [simp]: "io_seq (raise e) k = raise e"
  by (simp add: io_seq_def)

lemma lift_Inr [simp]: "lift (Inr x) = ret x"
  by (simp add: lift_def)

lemma lift_Inl [simp]: "lift (Inl e) = raise e"
  by (simp add: lift_def)

lemma io_seq_emit_apply:
  "io_seq (emit ev) k s = (case k s of (es, r, s') \<Rightarrow> (ev # es, r, s'))"
  by (simp add: io_seq_def io_bind_def emit_def)

lemma io_seq_print_apply:
  "io_seq (print m) k s = (case k s of (es, r, s') \<Rightarrow> (Print m # es, r, s'))"
  by (simp add: print_def io_seq_emit_apply)

lemma ret_apply: "ret x s = ([], Inr x, s)" by (simp add: ret_def)
lemma raise_apply: "raise e s = ([], Inl e, s)" by (simp add: raise_def)
lemma print_apply: "print m s = ([Print m], Inr (), s)" by (simp add: print_def emit_def)
lemma input_Cons: "input p (l # ls) = ([Input p], Inr l, ls)"
  by (simp add: input_def)

lemma input_Nil: "input p [] = ([Input p], Inl EOFError, [])"
  by (simp add: input_def)

lemma io_bind_input_Cons:
  "io_bind (input p) f (l # ls) = (case f l ls of (es, r, s') \<Rightarrow> (Input p # es, r, s'))"
  by (simp add: io_bind_def input_def)

subsection \<open>Loading the artifacts\<close>

lemma joblib_load_None: "joblib_load a None s = ([JoblibLoad a], Inl FileNotFoundError, s)"
  by (simp add: joblib_load_def io_seq_emit_apply raise_apply)

lemma joblib_load_Some: "joblib_load a (Some v) s = ([JoblibLoad a], Inr v, s)"
  by (simp add: joblib_load_def io_seq_emit_apply ret_apply)

lemma load_model_present:
  assumes "soup_predictor_model_pkl e = Some model" "label_encoder_pkl e = Some classes"
    "feature_columns_pkl e = Some feature_columns"
  shows "load_model e s =
    ([JoblibLoad SoupPredictorModelPkl, JoblibLoad LabelEncoderPkl, JoblibLoad FeatureColumnsPkl,
      Print ModelLoaded, Print (KnownSoups classes)], Inr (model, classes, feature_columns), s)"
  using assms
  by (simp add: load_model_def try_except_FileNotFoundError_def io_bind_apply joblib_load_Some
      io_seq_print_apply ret_apply)

lemma load_model_absent:
  assumes "soup_predictor_model_pkl e = None \<or> label_encoder_pkl e = None
    \<or> feature_columns_pkl e = None"
  shows "load_model e s =
    (map JoblibLoad (attempted_loads e) @ [Print ModelFilesMissingRunTrainModel], Inl SystemExit, s)"
  using assms
  by (cases "soup_predictor_model_pkl e"; cases "label_encoder_pkl e"; cases "feature_columns_pkl e")
    (simp_all add: load_model_def try_except_FileNotFoundError_def io_bind_apply joblib_load_Some
      joblib_load_None io_seq_print_apply ret_apply raise_apply attempted_loads_def)

lemma rank_soups_absent:
  assumes "soup_predictor_model_pkl e = None \<or> label_encoder_pkl e = None
    \<or> feature_columns_pkl e = None"
  shows "rank_soups e s =
    ([Print Started, Print Rule] @ map JoblibLoad (attempted_loads e)
       @ [Print ModelFilesMissingRunTrainModel], Inl SystemExit, s)"
  using load_model_absent [OF assms]
  by (simp add: rank_soups_def io_seq_print_apply io_bind_apply)

lemma predict_absent:
  assumes "soup_predictor_model_pkl e = None \<or> label_encoder_pkl e = None
    \<or> feature_columns_pkl e = None"
  shows "run (predict e) lines =
    ([Print Started, Print Rule] @ map JoblibLoad (attempted_loads e)
       @ [Print ModelFilesMissingRunTrainModel], Exited)"
  using rank_soups_absent [OF assms]
  by (simp add: run_def predict_def io_bind_apply)

subsection \<open>Reading the answers\<close>

lemma strptime_Inl: "strptime s = Inl ex \<Longrightarrow> ex = ValueError (TimeData s)"
  by (auto simp: strptime_def split: option.splits list.splits if_splits prod.splits)

lemma py_float_Inl: "py_float s = Inl ex \<Longrightarrow> ex = ValueError (NotAFloat s)"
  by (auto simp: py_float_def Let_def split: option.splits if_splits)

lemma read_date_given:
  "strip l \<noteq> [] \<Longrightarrow> read_date today (l # ls) = ([Input AskDate], Inr (strip l), ls)"
  by (simp add: read_date_def io_bind_input_Cons ret_apply)

lemma read_date_blank:
  "strip l = [] \<Longrightarrow> add_one_day today = Inr tm \<Longrightarrow>
   read_date today (l # ls) =
     ([Input AskDate, Print (UsingDefaultDate (strftime tm))], Inr (strftime tm), ls)"
  by (simp add: read_date_def io_bind_input_Cons io_seq_print_apply ret_apply)

lemma read_weekday_given:
  "strip l \<noteq> [] \<Longrightarrow> read_weekday d (l # ls) = ([Input AskWeekday], Inr (strip l), ls)"
  by (simp add: read_weekday_def io_bind_input_Cons ret_apply)

lemma read_weekday_blank:
  "strip l = [] \<Longrightarrow> strptime d = Inr dt \<Longrightarrow>
   read_weekday d (l # ls) =
     ([Input AskWeekday, Print (AutoWeekday [digit_char (isoweekday dt)])],
      Inr [digit_char (isoweekday dt)], ls)"
  by (simp add: read_weekday_def io_bind_input_Cons io_seq_print_apply ret_apply)

lemma read_weekday_blank_bad_date:
  "strip l = [] \<Longrightarrow> strptime d = Inl ex \<Longrightarrow>
   read_weekday d (l # ls) = ([Input AskWeekday], Inl ex, ls)"
  by (simp add: read_weekday_def io_bind_input_Cons raise_apply)

lemma read_temp_apply:
  "read_temp (l # ls) =
     ([Input AskTemp], py_float (if strip l = [] then ascii ''20'' else strip l), ls)"
  by (cases "py_float (if strip l = [] then ascii ''20'' else strip l)")
     (simp_all add: read_temp_def io_bind_input_Cons ret_apply raise_apply Let_def)

lemmas float_defs = py_float_def float_literal_def inf_or_nan_def decimal_def parse_sign_def
  lower_def c_strip_def c_isspace_def is_digit_def digits_value_def digit_val_def ipow_def
  round_double_def round_half_even_def binexp_def bit_length.simps ascii_def Let_def

lemma py_float_20: "py_float (ascii ''20'') = Inr (Finite 20)"
  by (simp add: float_defs)

text \<open>\<open>float\<close> reads exponents, digit groups, the digits of other scripts and the
  special values, and rounds what it reads to the nearest binary64 number.\<close>

lemma py_float_exponent: "py_float (ascii ''1e3'') = Inr (Finite 1000)"
  by (simp add: float_defs)

lemma py_float_grouped: "py_float (ascii ''1_0'') = Inr (Finite 10)"
  by (simp add: float_defs)

lemma py_float_fullwidth: "py_float [65297, 65298, 12288] = Inr (Finite 12)"
  by (simp add: float_defs decimal_value_def digit_zeros_def isspace_def)

lemma py_float_nan: "py_float (ascii ''nan'') = Inr NaN"
  by (simp add: float_defs)

lemma py_float_inf: "py_float (ascii ''-Inf'') = Inr NegInf"
  by (simp add: float_defs)

lemma py_float_rounds: "py_float (ascii ''14.9999999999999999999'') = Inr (Finite 15)"
  by (simp add: float_defs)

lemma py_float_word: "py_float (ascii ''warm'') = Inl (ValueError (NotAFloat (ascii ''warm'')))"
  by (simp add: float_defs)


lemma read_tomorrow_ok:
  assumes "read_date today s = (es1, Inr D, s1)"
    and "read_weekday D s1 = (es2, Inr W, x # t # rest)"
    and "py_float (temp_text t) = Inr tv"
    and "strptime D = Inr dt"
  shows "read_tomorrow today s =
    (Print TomorrowHeader # es1 @ es2 @
       [Print WeatherOptions, Input AskWeather, Print (WeatherCode (weather_map_get (strip x))),
        Input AskTemp, Print (Temperature tv), Print (IsWeekend (weekend_flag W \<noteq> 0)),
        Print (MonthSeason (dmonth dt) (season_code (dmonth dt)))],
     Inr \<lparr> ans_date_input = D, ans_weekday = W, ans_weather_str = strip x,
           ans_weather_code = weather_map_get (strip x), ans_temp = tv,
           ans_is_weekend = weekend_flag W, ans_month = dmonth dt,
           ans_season = season_code (dmonth dt) \<rparr>, rest)"
  using assms
  by (simp add: read_tomorrow_def io_seq_print_apply io_bind_apply input_Cons
      read_temp_apply ret_apply Let_def temp_text_def)

lemma read_tomorrow_bad_temp:
  assumes "read_date today s = (es1, Inr D, s1)"
    and "read_weekday D s1 = (es2, Inr W, x # t # rest)"
    and "py_float (temp_text t) = Inl ex"
  shows "read_tomorrow today s =
    (Print TomorrowHeader # es1 @ es2 @
       [Print WeatherOptions, Input AskWeather, Print (WeatherCode (weather_map_get (strip x))),
        Input AskTemp], Inl ex, rest)"
  using assms
  by (simp add: read_tomorrow_def io_seq_print_apply io_bind_apply input_Cons
      read_temp_apply ret_apply Let_def temp_text_def)

lemma read_tomorrow_bad_month:
  assumes "read_date today s = (es1, Inr D, s1)"
    and "read_weekday D s1 = (es2, Inr W, x # t # rest)"
    and "py_float (temp_text t) = Inr tv"
    and "strptime D = Inl ex"
  shows "read_tomorrow today s =
    (Print TomorrowHeader # es1 @ es2 @
       [Print WeatherOptions, Input AskWeather, Print (WeatherCode (weather_map_get (strip x))),
        Input AskTemp, Print (Temperature tv), Print (IsWeekend (weekend_flag W \<noteq> 0))],
     Inl ex, rest)"
  using assms
  by (simp add: read_tomorrow_def io_seq_print_apply io_bind_apply input_Cons
      read_temp_apply ret_apply raise_apply Let_def temp_text_def)

lemma read_tomorrow_bad_weekday:
  assumes "read_date today s = (es1, Inr D, s1)"
    and "read_weekday D s1 = (es2, Inl ex, s2)"
  shows "read_tomorrow today s = (Print TomorrowHeader # es1 @ es2, Inl ex, s2)"
  using assms
  by (simp add: read_tomorrow_def io_seq_print_apply io_bind_apply)

lemma rank_soups_inputs_fail:
  assumes "soup_predictor_model_pkl e = Some model" "label_encoder_pkl e = Some classes"
    "feature_columns_pkl e = Some feature_columns"
    and "read_tomorrow (now e) lines = (es, Inl ex, s')"
  shows "rank_soups e lines =
    ([Print Started, Print Rule, JoblibLoad SoupPredictorModelPkl, JoblibLoad LabelEncoderPkl,
      JoblibLoad FeatureColumnsPkl, Print ModelLoaded, Print (KnownSoups classes)] @ es,
     Inl ex, s')"
  using assms(4) load_model_present [OF assms(1-3)]
  by (simp add: rank_soups_def io_seq_print_apply io_bind_apply)

lemma predict_inputs_fail:
  assumes "soup_predictor_model_pkl e = Some model" "label_encoder_pkl e = Some classes"
    "feature_columns_pkl e = Some feature_columns"
    and "read_tomorrow (now e) lines = (es, Inl ex, s')"
  shows "predict e lines =
    ([Print Started, Print Rule, JoblibLoad SoupPredictorModelPkl, JoblibLoad LabelEncoderPkl,
      JoblibLoad FeatureColumnsPkl, Print ModelLoaded, Print (KnownSoups classes)] @ es,
     Inl ex, s')"
  using rank_soups_inputs_fail [OF assms]
  by (simp add: predict_def io_bind_apply)

lemma malformed_date_run:
  assumes "soup_predictor_model_pkl e = Some model" "label_encoder_pkl e = Some classes"
    "feature_columns_pkl e = Some feature_columns"
    and "strip d \<noteq> []" and "strptime (strip d) = Inl err"
  shows "\<exists>es. run (predict e) (d # w # x # t # rest) =
     (es, Uncaught (ValueError
        (if strip w \<noteq> [] \<and> isl (py_float (temp_text t)) then NotAFloat (temp_text t)
         else TimeData (strip d))))
     \<and> (\<forall>s. Print (UsingDefaultDate s) \<notin> set es)
     \<and> (\<forall>m c. Print (MonthSeason m c) \<notin> set es)
     \<and> (\<forall>s. Print (FirstChoice s) \<notin> set es)"
proof -
  have err: "err = ValueError (TimeData (strip d))"
    using assms(5) by (rule strptime_Inl)
  note rd = read_date_given [OF assms(4), of "now e" "w # x # t # rest"]
  show ?thesis
  proof (cases "strip w = []")
    case True
    have "read_tomorrow (now e) (d # w # x # t # rest) =
        (Print TomorrowHeader # [Input AskDate] @ [Input AskWeekday], Inl err, x # t # rest)"
      by (rule read_tomorrow_bad_weekday [OF rd read_weekday_blank_bad_date [OF True assms(5)]])
    from predict_inputs_fail [OF assms(1-3) this] True err show ?thesis
      by (simp add: run_def)
  next
    case False
    note rw = read_weekday_given [OF False, of "strip d" "x # t # rest"]
    show ?thesis
    proof (cases "py_float (temp_text t)")
      case (Inl ex)
      then have ex: "ex = ValueError (NotAFloat (temp_text t))" by (rule py_float_Inl)
      from predict_inputs_fail [OF assms(1-3) read_tomorrow_bad_temp [OF rd rw Inl]] False Inl ex
      show ?thesis by (simp add: run_def)
    next
      case (Inr tv)
      from predict_inputs_fail [OF assms(1-3) read_tomorrow_bad_month [OF rd rw Inr assms(5)]]
        False Inr err
      show ?thesis by (simp add: run_def)
    qed
  qed
qed


subsection \<open>Formatting and parsing a date\<close>

lemma decade:
  fixes n :: nat
  assumes "10 * q \<le> n" "n < 10 * q + 10"
  shows "n div 10 = q" and "n mod 10 = n - 10 * q"
proof -
  show q: "n div 10 = q" using assms by (intro div_nat_eqI) simp_all
  show "n mod 10 = n - 10 * q"
    using minus_mult_div_eq_mod [of n 10] q by simp
qed

lemma mod10_le9: "(n::nat) mod 10 \<le> 9"
  using mod_less_divisor [of 10 n] by simp

lemma four_digits:
  fixes y :: nat
  assumes "y \<le> 9999"
  shows "1000 * (y div 100 div 10 mod 10) + 100 * (y div 100 mod 10) + 10 * (y div 10 mod 10)
      + y mod 10 = y"
proof -
  have a: "y div 100 div 10 = y div 1000" by (simp add: div_mult2_eq [symmetric])
  have b: "y div 1000 mod 10 = y div 1000" using assms by simp
  have c: "y div 100 = 10 * (y div 1000) + y div 100 mod 10"
    using div_mult_mod_eq [of "y div 100" 10] a by simp
  have d: "y div 10 = 10 * (y div 100) + y div 10 mod 10"
    using div_mult_mod_eq [of "y div 10" 10] by (simp add: div_mult2_eq [symmetric])
  have e: "y = 10 * (y div 10) + y mod 10" by simp
  show ?thesis unfolding a b using c d e by linarith
qed

lemma decimal_value_digit_char: "n \<le> 9 \<Longrightarrow> decimal_value (digit_char n) = Some n"
  by (simp add: decimal_value_def digit_zeros_def digit_char_def)

lemma parse_year_two_digits:
  assumes "y \<le> 9999"
  shows "parse_year (two_digits (y div 100) @ two_digits y @ rest) = Some (y, rest)"
  using four_digits [OF assms]
  by (simp add: two_digits_def decimal_value_digit_char mod10_le9)

lemma parse_month_two_digits:
  assumes "1 \<le> m" "m \<le> 12"
  shows "parse_month (two_digits m @ rest) = Some (m, rest)"
proof (cases "m < 10")
  case True
  then have "m div 10 = 0" "m mod 10 = m" by simp_all
  with assms show ?thesis
    by (simp add: two_digits_def digit_char_def digit_val_def)
next
  case False
  with assms have "m div 10 = 1" "m mod 10 = m - 10" using decade [of 1 m] by simp_all
  with assms False show ?thesis
    by (simp add: two_digits_def digit_char_def digit_val_def)
qed

lemma parse_day_two_digits:
  assumes "1 \<le> d" "d \<le> 31"
  shows "parse_day (two_digits d) = Some (d, [])"
proof -
  consider "d < 10" | "10 \<le> d" "d < 20" | "20 \<le> d" "d < 30" | "30 \<le> d" by linarith
  then show ?thesis
  proof cases
    case 1
    then have "d div 10 = 0" "d mod 10 = d" by simp_all
    with assms show ?thesis
      by (simp add: two_digits_def digit_char_def digit_val_def is_digit_def)
  next
    case 2
    then have "d div 10 = 1" "d mod 10 = d - 10" using decade [of 1 d] by simp_all
    with 2 decimal_value_digit_char [of "d - 10"] show ?thesis
      by (simp add: two_digits_def digit_char_def digit_val_def)
  next
    case 3
    then have "d div 10 = 2" "d mod 10 = d - 20" using decade [of 2 d] by simp_all
    with 3 decimal_value_digit_char [of "d - 20"] show ?thesis
      by (simp add: two_digits_def digit_char_def digit_val_def)
  next
    case 4
    with assms have "d div 10 = 3" "d mod 10 = d - 30" using decade [of 3 d] by simp_all
    with 4 assms show ?thesis
      by (simp add: two_digits_def digit_char_def digit_val_def is_digit_def)
  qed
qed

lemma days_in_month_le_31: "days_in_month y m \<le> 31"
  by (simp add: days_in_month_def)

lemma days_in_month_ge_28: "28 \<le> days_in_month y m"
  by (simp add: days_in_month_def)

lemma strptime_strftime_Date:
  assumes "valid_date (Date y m d)"
  shows "strptime (strftime (Date y m d)) = Inr (Date y m d)"
proof -
  from assms have y: "y \<le> 9999" and m: "1 \<le> m" "m \<le> 12" and d: "1 \<le> d"
    and dd: "d \<le> days_in_month y m"
    by (simp_all add: valid_date_def)
  from dd have d31: "d \<le> 31" using days_in_month_le_31 [of y m] by linarith
  have py: "parse_year (strftime (Date y m d)) = Some (y, 45 # two_digits m @ 45 # two_digits d)"
    using parse_year_two_digits [OF y, of "45 # two_digits m @ 45 # two_digits d"]
    by (simp add: strftime_def)
  have pm: "parse_month (two_digits m @ 45 # two_digits d) = Some (m, 45 # two_digits d)"
    by (rule parse_month_two_digits [OF m])
  have pd: "parse_day (two_digits d) = Some (d, [])"
    by (rule parse_day_two_digits [OF d d31])
  show ?thesis
    unfolding strptime_def py using assms by (simp add: pm pd)
qed

lemma strptime_strftime:
  assumes "valid_date dt"
  shows "strptime (strftime dt) = Inr dt"
  using assms strptime_strftime_Date by (cases dt) simp

lemma add_one_day_valid:
  assumes "valid_date dt" "add_one_day dt = Inr tm"
  shows "valid_date tm"
  using assms days_in_month_ge_28 [of "dyear dt" "dmonth dt + 1"] days_in_month_ge_28 [of "dyear dt + 1" 1]
  by (auto simp: add_one_day_def valid_date_def split: if_splits)

lemma add_one_day_ok:
  assumes "valid_date dt" "dyear dt < 9999"
  shows "\<exists>tm. add_one_day dt = Inr tm"
  using assms by (simp add: add_one_day_def)

subsection \<open>Defaults\<close>

lemma weather_map_get_blank: "weather_map_get [] = 2"
  by (simp add: weather_map_get_def weather_map_def)

lemma weather_map_get_unknown:
  assumes "weather_str \<notin> fst ` set weather_map"
  shows "weather_map_get weather_str = 2"
proof -
  from assms have "map_of weather_map weather_str = None"
    by (simp add: map_of_eq_None_iff)
  then show ?thesis by (simp add: weather_map_get_def)
qed

lemma strip_Nil: "strip [] = []"
  by (simp add: strip_def)

lemma parse_inventory_blank: "strip line = [] \<Longrightarrow> parse_inventory line = []"
  by (simp add: parse_inventory_def replace_char_def strip_Nil)

lemma read_inventory_apply:
  "read_inventory feature_columns (l # ls) =
     ([Print PantryHeader,
       Print (KnownIngredients [ingredient_name col. col \<leftarrow> feature_columns, is_ingredient_col col]),
       Input AskInventory], Inr (parse_inventory l), ls)"
  by (simp add: read_inventory_def io_seq_print_apply io_bind_apply input_Cons ret_apply)

lemma read_temp_blank: "strip l = [] \<Longrightarrow> read_temp (l # ls) = ([Input AskTemp], Inr (Finite 20), ls)"
  by (simp add: read_temp_apply py_float_20)


subsection \<open>Encoding the features\<close>

lemma add_ingredient_features_apply:
  "add_ingredient_features S pantry df c =
     (if c \<in> set S \<and> is_ingredient_col c
      then Some (if ingredient_name c \<in> set pantry then Finite 1 else Finite 0) else df c)"
  unfolding add_ingredient_features_def
  by (induction S arbitrary: df) auto

lemma tomorrow_data_fixed:
  "col \<in> set fixed_columns \<Longrightarrow> tomorrow_data a col = Some (feature_value a pantry col)"
  by (auto simp: fixed_columns_def tomorrow_data_def feature_value_def is_ingredient_col_def
      startswith_def ingredient_prefix_def
      col_temp_def col_weather_def col_month_def col_season_def col_weekend_def col_feedback_def)

lemma those_map_Some:
  "(\<forall>c \<in> set S. df c = Some (g c)) \<Longrightarrow> those (map df S) = Some (map g S)"
  by (induction S) simp_all

lemma encoded_column:
  assumes "valid_schema S" "col \<in> set S"
  shows "add_ingredient_features S pantry (tomorrow_data a) col = Some (feature_value a pantry col)"
proof (cases "is_ingredient_col col")
  case True
  with assms(2) show ?thesis
    by (simp add: add_ingredient_features_apply feature_value_def)
next
  case False
  with assms have "col \<in> set fixed_columns" by (auto simp: valid_schema_def)
  with False show ?thesis
    by (simp add: add_ingredient_features_apply tomorrow_data_fixed)
qed

lemma tomorrow_features_valid:
  assumes "valid_schema S"
  shows "tomorrow_features a pantry S = Inr (map (feature_value a pantry) S)"
proof -
  have "those (map (add_ingredient_features S pantry (tomorrow_data a)) S)
      = Some (map (feature_value a pantry) S)"
    by (rule those_map_Some) (simp add: encoded_column [OF assms])
  then show ?thesis by (simp add: tomorrow_features_def select_columns_def)
qed

lemma feature_value_known_names:
  assumes "col \<in> set S"
  shows "feature_value a [n \<leftarrow> pantry. n \<in> schema_ingredients S] col = feature_value a pantry col"
  using assms by (auto simp: feature_value_def schema_ingredients_def)

subsection \<open>The recipe check\<close>

lemma typical_ingredients_ok:
  assumes "\<forall>col \<in> set S. is_ingredient_col col \<longrightarrow> col \<in> set hcols"
  shows "typical_ingredients hcols rs S =
    Inr [ingredient_name col. col \<leftarrow> S, is_ingredient_col col \<and> mean_above_half rs col]"
  using assms by (induction S) auto

lemma map_filter_marked:
  assumes "presence_marked rs col"
  shows "List.map_filter (\<lambda>r. cell r col) rs = map (\<lambda>r. if cell r col = Some 1 then 1 else 0) rs"
  using assms by (induction rs) (auto simp: presence_marked_def List.map_filter_simps)

lemma sum_list_indicator:
  "sum_list (map (\<lambda>r. if P r then 1 else (0::real)) rs) = real (length (filter P rs))"
  by (induction rs) simp_all

lemma mean_above_half_iff:
  assumes "presence_marked rs col"
  shows "mean_above_half rs col = in_more_than_half rs col"
proof (cases "rs = []")
  case True
  then show ?thesis
    by (simp add: mean_above_half_def column_mean_def in_more_than_half_def List.map_filter_simps)
next
  case False
  let ?k = "length (filter (\<lambda>r. cell r col = Some 1) rs)"
  have n: "0 < real (length rs)" using False by simp
  have "(1 / 2 < real ?k / real (length rs)) = (real (length rs) < 2 * real ?k)"
    using n by (simp add: field_simps)
  also have "\<dots> = (length rs < 2 * ?k)"
    by (metis of_nat_less_iff of_nat_mult of_nat_numeral)
  finally show ?thesis
    using False
    by (simp add: mean_above_half_def column_mean_def map_filter_marked [OF assms]
        sum_list_indicator in_more_than_half_def)
qed

lemma set_missing_ingredients:
  "set (missing_ingredients typical pantry) = set typical - set pantry"
  by (auto simp: missing_ingredients_def)

lemma read_csv_Some: "read_csv (Some h) s = ([ReadCsv], Inr h, s)"
  by (simp add: read_csv_def io_seq_emit_apply ret_apply)

lemma read_csv_None: "read_csv None s = ([ReadCsv], Inl FileNotFoundError, s)"
  by (simp add: read_csv_def io_seq_emit_apply raise_apply)

lemma check_recipe_ok:
  assumes "col_soup \<in> set (columns h)"
    and "\<forall>col \<in> set S. is_ingredient_col col \<longrightarrow> col \<in> set (columns h)"
    and "filter (\<lambda>r. label r = top_soup) (rows h) = rs" and "rs \<noteq> []"
    and "\<forall>col \<in> set S. is_ingredient_col col \<longrightarrow> presence_marked rs col"
    and "typical = [ingredient_name col. col \<leftarrow> S, is_ingredient_col col \<and> in_more_than_half rs col]"
  shows "check_recipe (Some h) S pantry top_soup s =
    ([ReadCsv, Print (UsuallyNeeds typical),
      Print (if missing_ingredients typical pantry = [] then ReadyToCook
             else MissingIngredients (missing_ingredients typical pantry))], Inr (), s)"
proof -
  have "[ingredient_name col. col \<leftarrow> S, is_ingredient_col col \<and> mean_above_half rs col] = typical"
    unfolding assms(6)
    by (rule arg_cong [where f = concat], rule map_cong)
       (use assms(5) in \<open>auto simp: mean_above_half_iff\<close>)
  then have "typical_ingredients (columns h) rs S = Inr typical"
    using typical_ingredients_ok [OF assms(2), of rs] by simp
  then show ?thesis
    using assms(1,3,4)
    by (simp add: check_recipe_def io_bind_apply read_csv_Some io_seq_print_apply print_apply
        ret_apply Let_def)
qed


subsection \<open>The example answers\<close>

lemmas col_defs = col_temp_def col_weather_def col_month_def col_season_def col_weekend_def
  col_feedback_def col_soup_def ingredient_prefix_def

lemma demo_tomorrow: "add_one_day (Date 2024 2 2) = Inr (Date 2024 2 3)"
  by (simp add: add_one_day_def days_in_month_def is_leap_def)

lemma demo_valid: "valid_date (Date 2024 2 3)"
  by (simp add: valid_date_def days_in_month_def is_leap_def)

lemma demo_isoweekday: "isoweekday (Date 2024 2 3) = 6"
  by (simp add: isoweekday_def toordinal_def days_before_year_def days_before_month_def
      days_in_month_def is_leap_def upt_conv_Cons)

lemma demo_float: "py_float (temp_text (ascii ''10'')) = Inr (Finite 10)"
  by (simp add: temp_text_def strip_def isspace_def float_defs)

lemma demo_read_tomorrow:
  "read_tomorrow (Date 2024 2 2) ([] # [] # rain # ascii ''10'' # rest) =
    ([Print TomorrowHeader, Input AskDate, Print (UsingDefaultDate (ascii ''2024-02-03'')),
      Input AskWeekday, Print (AutoWeekday (ascii ''6'')),
      Print WeatherOptions, Input AskWeather, Print (WeatherCode 0),
      Input AskTemp, Print (Temperature (Finite 10)), Print (IsWeekend True), Print (MonthSeason 2 4)],
     Inr \<lparr> ans_date_input = ascii ''2024-02-03'', ans_weekday = ascii ''6'',
           ans_weather_str = rain, ans_weather_code = 0, ans_temp = Finite 10,
           ans_is_weekend = 1, ans_month = 2, ans_season = 4 \<rparr>, rest)"
proof -
  have sf: "strftime (Date 2024 2 3) = ascii ''2024-02-03''"
    by (simp add: strftime_def two_digits_def digit_char_def ascii_def)
  have sp: "strptime (ascii ''2024-02-03'') = Inr (Date 2024 2 3)"
    using strptime_strftime [OF demo_valid] by (simp add: sf)
  have rd: "read_date (Date 2024 2 2) ([] # [] # rain # ascii ''10'' # rest) =
      ([Input AskDate, Print (UsingDefaultDate (ascii ''2024-02-03''))],
       Inr (ascii ''2024-02-03''), [] # rain # ascii ''10'' # rest)"
    using read_date_blank [OF strip_Nil demo_tomorrow] by (simp add: sf)
  have rw: "read_weekday (ascii ''2024-02-03'') ([] # rain # ascii ''10'' # rest) =
      ([Input AskWeekday, Print (AutoWeekday (ascii ''6''))], Inr (ascii ''6''),
       rain # ascii ''10'' # rest)"
    using read_weekday_blank [OF strip_Nil sp]
    by (simp add: demo_isoweekday digit_char_def ascii_def)
  have sr: "strip rain = rain" by (simp add: rain_def strip_def isspace_def)
  have wm: "weather_map_get rain = 0" by (simp add: weather_map_get_def weather_map_def rain_def)
  have wf: "weekend_flag (ascii ''6'') = 1" by (simp add: weekend_flag_def)
  show ?thesis
    using read_tomorrow_ok [OF rd rw demo_float sp]
    by (simp add: sr wm wf season_code_def)
qed


subsection \<open>Events a step never causes\<close>

lemma avoids_ret: "avoids ev (ret x)"
  by (simp add: avoids_def ret_def)

lemma avoids_raise: "avoids ev (raise ex)"
  by (simp add: avoids_def raise_def)

lemma avoids_lift: "avoids ev (lift r)"
  by (cases r) (simp_all add: avoids_ret avoids_raise)

lemma avoids_emit: "ev \<noteq> ev' \<Longrightarrow> avoids ev (emit ev')"
  by (simp add: avoids_def emit_def)

lemma avoids_print: "ev \<noteq> Print m \<Longrightarrow> avoids ev (print m)"
  by (simp add: print_def avoids_emit)

lemma avoids_input: "ev \<noteq> Input p \<Longrightarrow> avoids ev (input p)"
  by (auto simp: avoids_def input_def split: list.splits)

lemma avoids_bind:
  assumes "avoids ev m" and "\<And>x. avoids ev (f x)"
  shows "avoids ev (io_bind m f)"
proof -
  have "ev \<notin> set (fst (io_bind m f s))" for s
  proof -
    obtain es r s' where ms: "m s = (es, r, s')" by (cases "m s") auto
    from assms(1) ms have es: "ev \<notin> set es" by (auto simp: avoids_def dest: spec [of _ s])
    show ?thesis
    proof (cases r)
      case (Inl ex)
      with ms es show ?thesis by (simp add: io_bind_def)
    next
      case (Inr x)
      obtain es' r' s'' where fs: "f x s' = (es', r', s'')" by (cases "f x s'") auto
      from assms(2) [of x] fs have "ev \<notin> set es'"
        by (auto simp: avoids_def dest: spec [of _ s'])
      with ms es Inr fs show ?thesis by (simp add: io_bind_def)
    qed
  qed
  then show ?thesis by (simp add: avoids_def)
qed

lemma avoids_seq: "avoids ev m \<Longrightarrow> avoids ev k \<Longrightarrow> avoids ev (io_seq m k)"
  by (simp add: io_seq_def avoids_bind)

lemma avoids_try:
  assumes "avoids ev m" and "avoids ev h"
  shows "avoids ev (try_except_FileNotFoundError m h)"
proof -
  have "ev \<notin> set (fst (try_except_FileNotFoundError m h s))" for s
  proof -
    obtain es r s' where ms: "m s = (es, r, s')" by (cases "m s") auto
    from assms(1) ms have es: "ev \<notin> set es" by (auto simp: avoids_def dest: spec [of _ s])
    obtain es' r' s'' where hs: "h s' = (es', r', s'')" by (cases "h s'") auto
    from assms(2) hs have "ev \<notin> set es'" by (auto simp: avoids_def dest: spec [of _ s'])
    with ms es hs show ?thesis
      by (cases r) (simp_all add: try_except_FileNotFoundError_def)
  qed
  then show ?thesis by (simp add: avoids_def)
qed

lemma avoids_joblib_load: "ev \<noteq> JoblibLoad a \<Longrightarrow> avoids ev (joblib_load a file)"
  by (cases "file") (simp_all add: joblib_load_def avoids_seq avoids_emit avoids_ret avoids_raise)

lemmas avoids_intros = avoids_ret avoids_raise avoids_lift avoids_emit avoids_print avoids_input
  avoids_bind avoids_seq avoids_try avoids_joblib_load

lemma avoids_load_model: "avoids ReadCsv (load_model e)"
  unfolding load_model_def by (intro avoids_intros) simp_all

lemma avoids_read_tomorrow: "avoids ReadCsv (read_tomorrow today)"
  unfolding read_tomorrow_def read_date_def read_weekday_def read_temp_def Let_def
  by (intro avoids_intros) (simp_all add: avoids_intros)

lemma avoids_read_inventory: "avoids ReadCsv (read_inventory S)"
  unfolding read_inventory_def by (intro avoids_intros) simp_all

lemma avoids_rank_soups: "avoids ReadCsv (rank_soups e)"
  unfolding rank_soups_def Let_def
  by (intro avoids_intros avoids_load_model avoids_read_tomorrow avoids_read_inventory)
     (auto simp: avoids_intros avoids_read_tomorrow avoids_read_inventory split: prod.splits
       intro!: avoids_intros avoids_read_tomorrow avoids_read_inventory)


subsection \<open>The report\<close>

lemma io_seq_apply:
  "io_seq m k s = (case m s of
       (es, Inl e, s') \<Rightarrow> (es, Inl e, s')
     | (es, Inr x, s') \<Rightarrow> (case k s' of (es', r, s'') \<Rightarrow> (es @ es', r, s'')))"
  by (simp add: io_seq_def io_bind_def)

lemma report_no_soup:
  "report e a S pantry [] probs s = ([Print Rule, Print ResultHeader, Print Rule], Inl IndexError, s)"
  by (simp add: report_def first_item_def io_seq_print_apply io_bind_apply raise_apply)

lemma report_no_prob:
  "report e a S pantry (t # ts) [] s =
     ([Print Rule, Print ResultHeader, Print Rule, Print (FirstChoice t)], Inl IndexError, s)"
  by (simp add: report_def first_item_def io_seq_print_apply io_bind_apply raise_apply)

lemma report_apply:
  "report e a S pantry (t # ts) (p # ps) s =
     (case check_recipe (history_cleaned_csv e) S pantry t s of
        (es, Inl ex, s1) \<Rightarrow> (first_choice_events pantry t p @ es, Inl ex, s1)
      | (es, Inr u, s1) \<Rightarrow>
          (case closing a (t # ts) (p # ps) s1 of
             (es', r, s2) \<Rightarrow> (first_choice_events pantry t p @ es @ es', r, s2)))"
  by (simp add: report_def closing_def first_item_def first_choice_events_def io_seq_print_apply
      io_bind_apply io_seq_apply [of "check_recipe _ _ _ _"] Let_def
      split: prod.splits sum.splits)

lemma check_recipe_absent:
  "check_recipe None S pantry t s = ([ReadCsv], Inl FileNotFoundError, s)"
  by (simp add: check_recipe_def io_bind_apply read_csv_None)

lemma report_history_absent:
  assumes "history_cleaned_csv e = None"
  shows "report e a S pantry (t # ts) (p # ps) s =
     (first_choice_events pantry t p @ [ReadCsv], Inl FileNotFoundError, s)"
  by (simp add: report_apply assms check_recipe_absent)

lemma rank_soups_history_irrelevant:
  "rank_soups (e\<lparr>history_cleaned_csv := h\<rparr>) = rank_soups e"
  by (simp add: rank_soups_def load_model_def)

lemma train_history_absent:
  "train lib None s = ([TrainPrint TrainingStarted, ReadCsv], Inl FileNotFoundError, s)"
  by (simp add: train_def tprint_def io_seq_emit_apply io_bind_apply read_csv_None)

lemma predict_apply:
  "predict e s = (case rank_soups e s of
       (es, Inl ex, s') \<Rightarrow> (es, Inl ex, s')
     | (es, Inr (a, S, pantry, soups, probs), s') \<Rightarrow>
         (case report e a S pantry soups probs s' of (es', r, s'') \<Rightarrow> (es @ es', r, s'')))"
  by (simp add: predict_def io_bind_apply split: prod.splits sum.splits)

lemma first_choice_before_read:
  assumes "ReadCsv \<in> set (fst (run (predict e) lines))"
  shows "\<exists>t p. Print (FirstChoice t) \<in> set (takeWhile (\<lambda>ev. ev \<noteq> ReadCsv) (fst (run (predict e) lines)))
     \<and> Print (Confidence p) \<in> set (takeWhile (\<lambda>ev. ev \<noteq> ReadCsv) (fst (run (predict e) lines)))"
proof -
  obtain es r s' where rk: "rank_soups e lines = (es, r, s')"
    by (cases "rank_soups e lines") auto
  have es: "ReadCsv \<notin> set es"
    using avoids_rank_soups [of e] rk by (auto simp: avoids_def dest: spec [of _ lines])
  show ?thesis
  proof (cases r)
    case (Inl ex)
    with rk es assms show ?thesis
      by (simp add: run_def predict_apply)
  next
    case (Inr v)
    obtain a S pantry soups probs where v: "v = (a, S, pantry, soups, probs)"
      by (cases v) auto
    obtain es' r' s'' where rp: "report e a S pantry soups probs s' = (es', r', s'')"
      by (cases "report e a S pantry soups probs s'") auto
    have tr: "fst (run (predict e) lines) = es @ es'"
      using rk Inr v rp by (simp add: run_def predict_apply split: sum.splits)
    show ?thesis
    proof (cases soups)
      case Nil
      with rp have "es' = [Print Rule, Print ResultHeader, Print Rule]"
        by (simp add: report_no_soup)
      with tr es assms show ?thesis by simp
    next
      case (Cons t ts)
      show ?thesis
      proof (cases probs)
        case Nil
        with rp Cons have "es' = [Print Rule, Print ResultHeader, Print Rule, Print (FirstChoice t)]"
          by (simp add: report_no_prob)
        with tr es assms show ?thesis by simp
      next
        case (Cons p ps)
        with rp \<open>soups = t # ts\<close> obtain more where es': "es' = first_choice_events pantry t p @ more"
          by (auto simp: report_apply split: prod.splits sum.splits)
        have "\<And>x. x \<in> set es \<Longrightarrow> x \<noteq> ReadCsv" using es by auto
        then have "takeWhile (\<lambda>ev. ev \<noteq> ReadCsv) (es @ es')
            = es @ takeWhile (\<lambda>ev. ev \<noteq> ReadCsv) es'"
          by (rule takeWhile_append2)
        then have "takeWhile (\<lambda>ev. ev \<noteq> ReadCsv) (es @ es')
            = es @ first_choice_events pantry t p @ takeWhile (\<lambda>ev. ev \<noteq> ReadCsv) more"
          by (simp add: es' first_choice_events_def)
        then show ?thesis
          unfolding tr by (auto simp: first_choice_events_def)
      qed
    qed
  qed
qed

lemma predict_history_absent:
  assumes "history_cleaned_csv e = None"
    and "rank_soups e lines = (es, Inr (a, S, pantry, t # ts, p # ps), rest)"
  shows "run (predict e) lines =
    (es @ first_choice_events pantry t p @ [ReadCsv], Uncaught FileNotFoundError)"
  using assms by (simp add: run_def predict_apply report_history_absent)

subsection \<open>The trainer\<close>

lemma tprint_apply: "tprint m s = ([TrainPrint m], Inr (), s)"
  by (simp add: tprint_def emit_def)

lemma io_seq_tprint_apply:
  "io_seq (tprint m) k s = (case k s of (es, r, s') \<Rightarrow> (TrainPrint m # es, r, s'))"
  by (simp add: tprint_def io_seq_emit_apply)

lemma split_data_stratified:
  assumes "15 \<le> n"
    and "train_test_split lib samples (2 / 10) 42 (Some (map snd samples)) = Some (tr, te)"
  shows "split_data lib n samples s =
    ([TrainPrint (SplitSizes (length tr) (length te))], Inr (tr, Some te), s)"
  using assms by (simp add: split_data_def io_seq_tprint_apply ret_apply)

lemma split_data_fallback:
  assumes "15 \<le> n"
    and "train_test_split lib samples (2 / 10) 42 (Some (map snd samples)) = None"
    and "train_test_split lib samples (2 / 10) 42 None = Some (tr, te)"
  shows "split_data lib n samples s =
    ([TrainPrint CannotStratify, TrainPrint (RandomSplitSizes (length tr) (length te))],
     Inr (tr, Some te), s)"
  using assms by (simp add: split_data_def io_seq_tprint_apply ret_apply)

lemma split_data_small:
  assumes "n < 15"
  shows "split_data lib n samples s = ([TrainPrint (AllUsedForFitting n)], Inr (samples, None), s)"
  using assms by (simp add: split_data_def io_seq_tprint_apply ret_apply)

lemma evaluate_skipped: "evaluate lib m None s = ([TrainPrint EvaluationSkipped], Inr (), s)"
  by (simp add: evaluate_def tprint_apply)

lemma evaluate_held_out:
  assumes "classification_report lib m te"
  shows "evaluate lib m (Some te) s =
    ([TrainPrint EvaluationHeader, TrainPrint (Accuracy (accuracy lib m te)),
      TrainPrint ReportHeader, TrainPrint ClassificationReport], Inr (), s)"
  using assms by (simp add: evaluate_def io_seq_tprint_apply tprint_apply)

lemma feature_matrix_training:
  assumes "set fixed_columns \<subseteq> set (columns h)"
  shows "feature_matrix h (training_columns h) =
    Inr (map (\<lambda>r. map (\<lambda>c. case cell r c of None \<Rightarrow> 0 | Some v \<Rightarrow> v) (training_columns h)) (rows h))"
proof -
  have "set (training_columns h) \<subseteq> set (columns h)"
    using assms by (auto simp: training_columns_def)
  then have "\<not> (\<exists>c \<in> set (training_columns h). c \<notin> set (columns h))" by blast
  then show ?thesis unfolding feature_matrix_def by (simp only: if_False)
qed

lemma fit_model_ok:
  "fit lib tr = Some m \<Longrightarrow>
   fit_model lib tr s = ([TrainPrint FittingModel, TrainPrint ModelFitted], Inr m, s)"
  by (simp add: fit_model_def io_seq_tprint_apply io_bind_apply ret_apply)

lemma explain_apply:
  "explain lib m cols s =
     ([TrainPrint ImportanceHeader, TrainPrint TopFiveHeader,
       TrainPrint (ImportanceTable (zip cols (feature_importances lib m)))], Inr (), s)"
  by (simp add: explain_def io_seq_tprint_apply tprint_apply)

lemma save_model_apply:
  "save_model n s =
     ([TrainPrint SavingModel, JoblibDump SoupPredictorModelPkl, JoblibDump LabelEncoderPkl,
       JoblibDump FeatureColumnsPkl, TrainPrint ModelSaved, TrainPrint EncoderSaved,
       TrainPrint (TrainingDone n), TrainPrint SelfTestHeader], Inr (), s)"
  by (simp add: save_model_def io_seq_tprint_apply io_seq_emit_apply tprint_apply)


lemma train_with_partitions:
  assumes "set fixed_columns \<subseteq> set (columns h)" and "col_soup \<in> set (columns h)"
    and "split_data lib (length (rows h)) (training_samples h) s = (es_split, Inr (tr, te), s)"
    and "fit lib tr = Some m"
    and "evaluate lib m te s = (es_eval, Inr (), s)"
  shows "train lib (Some h) s =
    (train_trace lib h m es_split es_eval, Inr (m, vocabulary h, training_columns h), s)"
proof -
  have sp: "split_data lib (length (rows h))
      (zip (map (\<lambda>r. map (\<lambda>c. case cell r c of None \<Rightarrow> 0 | Some v \<Rightarrow> v)
                 (fixed_columns @ filter is_ingredient_col (columns h))) (rows h))
           (snd (fit_transform (map label (rows h))))) s = (es_split, Inr (tr, te), s)"
    using assms(3) by (simp add: training_samples_def training_columns_def)
  show ?thesis
    using feature_matrix_training [OF assms(1)] assms(2) sp
    by (simp add: train_def io_seq_tprint_apply io_bind_apply read_csv_Some Let_def
        label_column_def training_columns_def vocabulary_def train_trace_def
        fit_model_ok [OF assms(4)] io_seq_apply [of "evaluate _ _ _"] assms(5)
        io_seq_apply [of "explain _ _ _"] explain_apply
        io_seq_apply [of "save_model _"] save_model_apply ret_apply case_prod_beta)
qed

subsection \<open>A run on the example data\<close>

lemma rank_soups_ok:
  assumes "soup_predictor_model_pkl e = Some model" "label_encoder_pkl e = Some classes"
    "feature_columns_pkl e = Some S"
    and "read_tomorrow (now e) lines = (es, Inr a, l # rest)"
    and "tomorrow_features a (parse_inventory l) S = Inr x"
    and "model x = Some ps"
    and "inverse_transform classes (top3_indices (np_argsort e) ps) = Inr soups"
  shows "rank_soups e lines =
    ([Print Started, Print Rule, JoblibLoad SoupPredictorModelPkl, JoblibLoad LabelEncoderPkl,
      JoblibLoad FeatureColumnsPkl, Print ModelLoaded, Print (KnownSoups classes)] @ es @
     [Print PantryHeader,
      Print (KnownIngredients [ingredient_name col. col \<leftarrow> S, is_ingredient_col col]),
      Input AskInventory, Print Analysing],
     Inr (a, S, parse_inventory l, soups, map (\<lambda>i. ps ! i) (top3_indices (np_argsort e) ps)),
     rest)"
  using assms(4-7) load_model_present [OF assms(1-3)]
  by (simp add: rank_soups_def io_seq_print_apply io_bind_apply read_inventory_apply
      predict_proba_def ret_apply Let_def)

lemma demo_parse_inventory:
  "parse_inventory (ascii ''pork ribs, corn'') = [ascii ''pork ribs'', ascii ''corn'']"
  by (simp add: parse_inventory_def ascii_def strip_def isspace_def replace_char_def)

lemma demo_valid_schema: "valid_schema demo_columns"
  by (simp add: valid_schema_def demo_columns_def is_ingredient_col_def startswith_def)

lemma demo_features:
  "tomorrow_features demo_answers [ascii ''pork ribs'', ascii ''corn''] demo_columns =
     Inr (map Finite [10, 0, 2, 4, 1, 75, 1, 1, 0])"
proof -
  have "map (feature_value demo_answers [ascii ''pork ribs'', ascii ''corn'']) demo_columns
      = map Finite [10, 0, 2, 4, 1, 75, 1, 1, 0]"
    by (simp add: demo_columns_def fixed_columns_def feature_value_def demo_answers_def
        ingredient_name_def is_ingredient_col_def startswith_def col_defs ascii_def)
  then show ?thesis
    by (simp only: tomorrow_features_valid [OF demo_valid_schema])
qed


lemma demo_top3: "top3_indices (np_argsort demo_env) [3/5, 1/10, 3/10] = [0, 2, 1]"
  by (simp add: top3_indices_def last3_def demo_env_def argsort_insertion_def upt_conv_Cons)

lemma demo_inverse_transform:
  "inverse_transform demo_classes [0, 2, 1] =
     Inr [ascii ''corn rib soup'', ascii ''melon soup'', ascii ''lotus soup'']"
  by (simp add: inverse_transform_def demo_classes_def)

lemma demo_rank_soups:
  "rank_soups demo_env demo_lines =
    ([Print Started, Print Rule, JoblibLoad SoupPredictorModelPkl, JoblibLoad LabelEncoderPkl,
      JoblibLoad FeatureColumnsPkl, Print ModelLoaded, Print (KnownSoups demo_classes),
      Print TomorrowHeader, Input AskDate, Print (UsingDefaultDate (ascii ''2024-02-03'')),
      Input AskWeekday, Print (AutoWeekday (ascii ''6'')),
      Print WeatherOptions, Input AskWeather, Print (WeatherCode 0),
      Input AskTemp, Print (Temperature (Finite 10)), Print (IsWeekend True), Print (MonthSeason 2 4),
      Print PantryHeader,
      Print (KnownIngredients [ascii ''pork ribs'', ascii ''corn'', ascii ''carrot'']),
      Input AskInventory, Print Analysing],
     Inr (demo_answers, demo_columns, [ascii ''pork ribs'', ascii ''corn''],
          [ascii ''corn rib soup'', ascii ''melon soup'', ascii ''lotus soup''],
          [3/5, 3/10, 1/10]), [ascii ''n''])"
proof -
  have names: "[ingredient_name col. col \<leftarrow> demo_columns, is_ingredient_col col]
      = [ascii ''pork ribs'', ascii ''corn'', ascii ''carrot'']"
    by (simp add: demo_columns_def fixed_columns_def ingredient_name_def is_ingredient_col_def
        startswith_def col_defs ascii_def)
  have rt: "read_tomorrow (now demo_env) demo_lines =
      ([Print TomorrowHeader, Input AskDate, Print (UsingDefaultDate (ascii ''2024-02-03'')),
        Input AskWeekday, Print (AutoWeekday (ascii ''6'')),
        Print WeatherOptions, Input AskWeather, Print (WeatherCode 0),
        Input AskTemp, Print (Temperature (Finite 10)), Print (IsWeekend True), Print (MonthSeason 2 4)],
       Inr demo_answers, ascii ''pork ribs, corn'' # [ascii ''n''])"
    using demo_read_tomorrow [of "[ascii ''pork ribs, corn'', ascii ''n'']"]
    by (simp add: demo_env_def demo_lines_def demo_answers_def)
  have ft: "tomorrow_features demo_answers (parse_inventory (ascii ''pork ribs, corn''))
      demo_columns = Inr (map Finite [10, 0, 2, 4, 1, 75, 1, 1, 0])"
    by (simp only: demo_parse_inventory demo_features)
  have md: "demo_model (map Finite [10, 0, 2, 4, 1, 75, 1, 1, 0]) = Some [3/5, 1/10, 3/10]"
    by (simp add: demo_model_def)
  have it: "inverse_transform demo_classes (top3_indices (np_argsort demo_env) [3/5, 1/10, 3/10]) =
      Inr [ascii ''corn rib soup'', ascii ''melon soup'', ascii ''lotus soup'']"
    by (simp only: demo_top3 demo_inverse_transform)
  have "rank_soups demo_env demo_lines =
    ([Print Started, Print Rule, JoblibLoad SoupPredictorModelPkl, JoblibLoad LabelEncoderPkl,
      JoblibLoad FeatureColumnsPkl, Print ModelLoaded, Print (KnownSoups demo_classes)] @
     [Print TomorrowHeader, Input AskDate, Print (UsingDefaultDate (ascii ''2024-02-03'')),
      Input AskWeekday, Print (AutoWeekday (ascii ''6'')),
      Print WeatherOptions, Input AskWeather, Print (WeatherCode 0),
      Input AskTemp, Print (Temperature (Finite 10)), Print (IsWeekend True), Print (MonthSeason 2 4)] @
     [Print PantryHeader,
      Print (KnownIngredients [ingredient_name col. col \<leftarrow> demo_columns, is_ingredient_col col]),
      Input AskInventory, Print Analysing],
     Inr (demo_answers, demo_columns, parse_inventory (ascii ''pork ribs, corn''),
          [ascii ''corn rib soup'', ascii ''melon soup'', ascii ''lotus soup''],
          map (\<lambda>i. [3/5, 1/10, 3/10] ! i) (top3_indices (np_argsort demo_env) [3/5, 1/10, 3/10])),
     [ascii ''n''])"
    by (rule rank_soups_ok [where e = demo_env and model = demo_model and classes = demo_classes
          and S = demo_columns, OF _ _ _ rt ft md it]) (simp_all add: demo_env_def)
  then show ?thesis
    by (simp add: names demo_parse_inventory demo_top3)
qed


lemma demo_recipe_facts:
  shows "col_soup \<in> set (columns demo_history)"
    and "\<forall>col \<in> set demo_columns. is_ingredient_col col \<longrightarrow> col \<in> set (columns demo_history)"
    and "filter (\<lambda>r. label r = ascii ''corn rib soup'') (rows demo_history) = demo_soup_rows"
    and "demo_soup_rows \<noteq> []"
    and "\<forall>col \<in> set demo_columns. is_ingredient_col col \<longrightarrow> presence_marked demo_soup_rows col"
    and "[ascii ''pork ribs'', ascii ''corn'', ascii ''carrot''] =
      [ingredient_name col. col \<leftarrow> demo_columns,
         is_ingredient_col col \<and> in_more_than_half demo_soup_rows col]"
proof -
  show "col_soup \<in> set (columns demo_history)" by (simp add: demo_history_def)
  show "\<forall>col \<in> set demo_columns. is_ingredient_col col \<longrightarrow> col \<in> set (columns demo_history)"
    by (simp add: demo_history_def)
  show "filter (\<lambda>r. label r = ascii ''corn rib soup'') (rows demo_history) = demo_soup_rows"
    by (simp add: demo_history_def demo_row_def demo_soup_rows_def ascii_def)
  show "demo_soup_rows \<noteq> []" by (simp add: demo_soup_rows_def)
  show "\<forall>col \<in> set demo_columns. is_ingredient_col col \<longrightarrow> presence_marked demo_soup_rows col"
    by (simp add: demo_columns_def fixed_columns_def presence_marked_def demo_soup_rows_def
        demo_row_def is_ingredient_col_def startswith_def col_defs ascii_def)
  show "[ascii ''pork ribs'', ascii ''corn'', ascii ''carrot''] =
      [ingredient_name col. col \<leftarrow> demo_columns,
         is_ingredient_col col \<and> in_more_than_half demo_soup_rows col]"
    by (simp add: demo_columns_def fixed_columns_def in_more_than_half_def demo_soup_rows_def
        demo_row_def ingredient_name_def is_ingredient_col_def startswith_def col_defs ascii_def)
qed

lemma demo_check_recipe:
  "check_recipe (Some demo_history) demo_columns [ascii ''pork ribs'', ascii ''corn'']
     (ascii ''corn rib soup'') s =
   ([ReadCsv, Print (UsuallyNeeds [ascii ''pork ribs'', ascii ''corn'', ascii ''carrot'']),
     Print (MissingIngredients [ascii ''carrot''])], Inr (), s)"
  using check_recipe_ok [OF demo_recipe_facts, of "[ascii ''pork ribs'', ascii ''corn'']" s]
  by (simp add: missing_ingredients_def ascii_def)


lemma demo_closing:
  "closing demo_answers [ascii ''corn rib soup'', ascii ''melon soup'', ascii ''lotus soup'']
     [3/5, 3/10, 1/10] [ascii ''n''] =
   ([Print AlternativesHeader, Print (Alternative 2 (ascii ''melon soup'') (3/10)),
     Print (Alternative 3 (ascii ''lotus soup'') (1/10)),
     Print Rule, Print Tip, Print Rule, Input AskSave], Inr (), [])"
  by (simp add: closing_def io_seq_apply print_apply ret_apply save_record_def io_bind_apply
      input_Cons ascii_def strip_def isspace_def)

lemma demo_report:
  "report demo_env demo_answers demo_columns [ascii ''pork ribs'', ascii ''corn'']
     [ascii ''corn rib soup'', ascii ''melon soup'', ascii ''lotus soup'']
     [3/5, 3/10, 1/10] [ascii ''n''] =
   ([Print Rule, Print ResultHeader, Print Rule, Print (FirstChoice (ascii ''corn rib soup'')),
     Print (Confidence (3/5)), Print ReasonLabel,
     Print (Inventory [ascii ''pork ribs'', ascii ''corn'']),
     Print (IfCook (ascii ''corn rib soup'')),
     ReadCsv, Print (UsuallyNeeds [ascii ''pork ribs'', ascii ''corn'', ascii ''carrot'']),
     Print (MissingIngredients [ascii ''carrot'']),
     Print AlternativesHeader, Print (Alternative 2 (ascii ''melon soup'') (3/10)),
     Print (Alternative 3 (ascii ''lotus soup'') (1/10)),
     Print Rule, Print Tip, Print Rule, Input AskSave], Inr (), [])"
proof -
  have h: "history_cleaned_csv demo_env = Some demo_history" by (simp add: demo_env_def)
  show ?thesis
    unfolding report_apply h demo_check_recipe
    by (simp add: demo_closing first_choice_events_def)
qed

lemma demo_run:
  "run (predict demo_env) demo_lines =
   ([Print Started, Print Rule, JoblibLoad SoupPredictorModelPkl, JoblibLoad LabelEncoderPkl,
     JoblibLoad FeatureColumnsPkl, Print ModelLoaded, Print (KnownSoups demo_classes),
     Print TomorrowHeader, Input AskDate, Print (UsingDefaultDate (ascii ''2024-02-03'')),
     Input AskWeekday, Print (AutoWeekday (ascii ''6'')),
     Print WeatherOptions, Input AskWeather, Print (WeatherCode 0),
     Input AskTemp, Print (Temperature (Finite 10)), Print (IsWeekend True), Print (MonthSeason 2 4),
     Print PantryHeader,
     Print (KnownIngredients [ascii ''pork ribs'', ascii ''corn'', ascii ''carrot'']),
     Input AskInventory, Print Analysing,
     Print Rule, Print ResultHeader, Print Rule, Print (FirstChoice (ascii ''corn rib soup'')),
     Print (Confidence (3/5)), Print ReasonLabel,
     Print (Inventory [ascii ''pork ribs'', ascii ''corn'']),
     Print (IfCook (ascii ''corn rib soup'')),
     ReadCsv, Print (UsuallyNeeds [ascii ''pork ribs'', ascii ''corn'', ascii ''carrot'']),
     Print (MissingIngredients [ascii ''carrot'']),
     Print AlternativesHeader, Print (Alternative 2 (ascii ''melon soup'') (3/10)),
     Print (Alternative 3 (ascii ''lotus soup'') (1/10)),
     Print Rule, Print Tip, Print Rule, Input AskSave], Finished)"
  unfolding run_def predict_apply demo_rank_soups
  by (simp add: demo_report)

subsection \<open>Missing artifacts\<close>

text \<open>
  C7. If any of the three persisted artifacts (classifier, label vocabulary, feature schema)
  is absent when the Predictor starts, the run prints the message that tells the user to
  run the trainer first and exits: the loads attempted so far and that message are all that
  happens after the banner, nothing is read from the console and no prediction is printed.
\<close>

theorem missing_artifact_aborts:
  assumes "soup_predictor_model_pkl e = None \<or> label_encoder_pkl e = None
    \<or> feature_columns_pkl e = None"
  shows "run (predict e) lines =
    ([Print Started, Print Rule] @ map JoblibLoad (attempted_loads e)
       @ [Print ModelFilesMissingRunTrainModel], Exited)"
  using assms by (rule predict_absent)

theorem missing_artifact_aborts_witness:
  "run (predict (demo_env\<lparr>label_encoder_pkl := None\<rparr>)) demo_lines =
    ([Print Started, Print Rule, JoblibLoad SoupPredictorModelPkl, JoblibLoad LabelEncoderPkl,
      Print ModelFilesMissingRunTrainModel], Exited)"
  using missing_artifact_aborts [of "demo_env\<lparr>label_encoder_pkl := None\<rparr>" demo_lines]
  by (simp add: demo_env_def attempted_loads_def)

subsection \<open>Malformed dates\<close>

text \<open>A date is malformed when \<open>strptime\<close> rejects it; a date written with the decimal
  digits of another script is not.\<close>

lemma strptime_arabic_indic_digits:
  "strptime [1634, 1632, 1634, 1636, 45, 48, 50, 45, 48, 51] = Inr (Date 2024 2 3)"
  by (simp add: strptime_def decimal_value_def digit_zeros_def digit_val_def valid_date_def
      days_in_month_def is_leap_def)

text \<open>
  C8 (as the code has it). With the artifacts in place and the prompts answered, a date that
  is not blank and that \<open>strptime\<close> rejects always ends the run with an uncaught
  \<open>ValueError\<close>: no default date is used, no month or season is derived and no prediction
  is printed. The error is the one \<open>strptime\<close> raised for that very string, when the
  weekday is derived from it or when the month is, except when a weekday was typed and
  \<open>float\<close> rejects the temperature: then the \<open>ValueError\<close> of \<open>float\<close> ends the run
  before the date is parsed at all.
\<close>

theorem malformed_date_is_fatal:
  assumes "soup_predictor_model_pkl e = Some model" "label_encoder_pkl e = Some classes"
    "feature_columns_pkl e = Some feature_columns"
    and "strip d \<noteq> []" and "strptime (strip d) = Inl err"
  shows "snd (run (predict e) (d # w # x # t # rest)) =
      Uncaught (ValueError
        (if strip w \<noteq> [] \<and> isl (py_float (temp_text t)) then NotAFloat (temp_text t)
         else TimeData (strip d)))
     \<and> (\<forall>s. Print (UsingDefaultDate s) \<notin> set (fst (run (predict e) (d # w # x # t # rest))))
     \<and> (\<forall>m c. Print (MonthSeason m c) \<notin> set (fst (run (predict e) (d # w # x # t # rest))))
     \<and> (\<forall>s. Print (FirstChoice s) \<notin> set (fst (run (predict e) (d # w # x # t # rest))))"
  using malformed_date_run [OF assms, of w x t rest] by auto

theorem malformed_date_is_fatal_witness:
  "snd (run (predict demo_env) [ascii ''2024-02-30'', [], rain, ascii ''10'']) =
     Uncaught (ValueError (TimeData (ascii ''2024-02-30'')))
   \<and> snd (run (predict demo_env) [ascii ''next friday'', ascii ''5'', rain, ascii ''1e3'']) =
     Uncaught (ValueError (TimeData (ascii ''next friday'')))"
proof -
  have s1: "strip (ascii ''2024-02-30'') = ascii ''2024-02-30''"
    by (simp add: strip_def isspace_def ascii_def)
  have n1: "strip (ascii ''2024-02-30'') \<noteq> []"
    by (simp add: strip_def isspace_def ascii_def)
  have p1: "strptime (strip (ascii ''2024-02-30'')) =
      Inl (ValueError (TimeData (ascii ''2024-02-30'')))"
    unfolding s1
    by (simp add: strptime_def ascii_def decimal_value_def digit_zeros_def digit_val_def
        valid_date_def days_in_month_def is_leap_def)
  have s2: "strip (ascii ''next friday'') = ascii ''next friday''"
    by (simp add: strip_def isspace_def ascii_def)
  have n2: "strip (ascii ''next friday'') \<noteq> []"
    by (simp add: strip_def isspace_def ascii_def)
  have p2: "strptime (strip (ascii ''next friday'')) =
      Inl (ValueError (TimeData (ascii ''next friday'')))"
    unfolding s2 by (simp add: strptime_def ascii_def decimal_value_def digit_zeros_def)
  have f2: "py_float (temp_text (ascii ''1e3'')) = Inr (Finite 1000)"
    by (simp add: temp_text_def strip_def isspace_def float_defs)
  have e: "soup_predictor_model_pkl demo_env = Some demo_model"
    "label_encoder_pkl demo_env = Some demo_classes"
    "feature_columns_pkl demo_env = Some demo_columns"
    by (simp_all add: demo_env_def)
  show ?thesis
    using malformed_date_is_fatal [OF e n1 p1, of "[]" rain "ascii ''10''" "[]"]
      malformed_date_is_fatal [OF e n2 p2, of "ascii ''5''" rain "ascii ''1e3''" "[]"]
    by (simp add: s1 s2 strip_Nil demo_float f2)
qed

text \<open>
  C8 (as the specification states it) has the parse failure of the date surfaced. A
  malformed date typed before a weekday is not parsed until the month is derived, after
  the temperature is read: with a temperature that is not a number the run ends at
  \<open>float\<close>, with its \<open>ValueError\<close>, and the parse failure of the date never shows.
\<close>

theorem malformed_date_not_surfaced_counterexample:
  "strptime (strip (ascii ''next friday'')) = Inl (ValueError (TimeData (ascii ''next friday'')))
   \<and> run (predict demo_env) [ascii ''next friday'', ascii ''5'', rain, ascii ''warm''] =
     ([Print Started, Print Rule, JoblibLoad SoupPredictorModelPkl, JoblibLoad LabelEncoderPkl,
       JoblibLoad FeatureColumnsPkl, Print ModelLoaded, Print (KnownSoups demo_classes),
       Print TomorrowHeader, Input AskDate, Input AskWeekday,
       Print WeatherOptions, Input AskWeather, Print (WeatherCode 0), Input AskTemp],
      Uncaught (ValueError (NotAFloat (ascii ''warm''))))"
proof -
  have s2: "strip (ascii ''next friday'') = ascii ''next friday''"
    by (simp add: strip_def isspace_def ascii_def)
  have n2: "strip (ascii ''next friday'') \<noteq> []"
    by (simp add: strip_def isspace_def ascii_def)
  have p2: "strptime (strip (ascii ''next friday'')) =
      Inl (ValueError (TimeData (ascii ''next friday'')))"
    unfolding s2 by (simp add: strptime_def ascii_def decimal_value_def digit_zeros_def)
  have n5: "strip (ascii ''5'') \<noteq> []"
    by (simp add: strip_def isspace_def ascii_def)
  have sr: "strip rain = rain" by (simp add: rain_def strip_def isspace_def)
  have wm: "weather_map_get rain = 0" by (simp add: weather_map_get_def weather_map_def rain_def)
  have tt: "temp_text (ascii ''warm'') = ascii ''warm''"
    by (simp add: temp_text_def strip_def isspace_def ascii_def)
  have pf: "py_float (temp_text (ascii ''warm'')) = Inl (ValueError (NotAFloat (ascii ''warm'')))"
    unfolding tt by (rule py_float_word)
  have e: "soup_predictor_model_pkl demo_env = Some demo_model"
    "label_encoder_pkl demo_env = Some demo_classes"
    "feature_columns_pkl demo_env = Some demo_columns"
    by (simp_all add: demo_env_def)
  note rd = read_date_given [OF n2, of "now demo_env" "[ascii ''5'', rain, ascii ''warm'']"]
  note rw = read_weekday_given [OF n5, of "strip (ascii ''next friday'')"
      "[rain, ascii ''warm'']"]
  have "predict demo_env [ascii ''next friday'', ascii ''5'', rain, ascii ''warm''] =
    ([Print Started, Print Rule, JoblibLoad SoupPredictorModelPkl, JoblibLoad LabelEncoderPkl,
      JoblibLoad FeatureColumnsPkl, Print ModelLoaded, Print (KnownSoups demo_classes)] @
     (Print TomorrowHeader # [Input AskDate] @ [Input AskWeekday] @
       [Print WeatherOptions, Input AskWeather, Print (WeatherCode (weather_map_get (strip rain))),
        Input AskTemp]),
     Inl (ValueError (NotAFloat (ascii ''warm''))), [])"
    by (rule predict_inputs_fail [OF e read_tomorrow_bad_temp [OF rd rw pf]])
  then have "run (predict demo_env) [ascii ''next friday'', ascii ''5'', rain, ascii ''warm''] =
     ([Print Started, Print Rule, JoblibLoad SoupPredictorModelPkl, JoblibLoad LabelEncoderPkl,
       JoblibLoad FeatureColumnsPkl, Print ModelLoaded, Print (KnownSoups demo_classes),
       Print TomorrowHeader, Input AskDate, Input AskWeekday,
       Print WeatherOptions, Input AskWeather, Print (WeatherCode 0), Input AskTemp],
      Uncaught (ValueError (NotAFloat (ascii ''warm''))))"
    by (simp add: run_def sr wm)
  with p2 show ?thesis by (rule conjI)
qed


subsection \<open>The weekday and the weekend flag\<close>

lemma read_date_result: "\<exists>es r. read_date today (l # ls) = (es, r, ls)"
proof (cases "strip l = []")
  case True
  then show ?thesis
    by (cases "add_one_day today")
       (simp_all add: read_date_def io_bind_apply input_Cons raise_apply ret_apply
          io_seq_print_apply)
next
  case False
  then show ?thesis by (simp add: read_date_given)
qed

lemma read_tomorrow_bad_date:
  assumes "read_date today s = (es1, Inl ex, s1)"
  shows "read_tomorrow today s = (Print TomorrowHeader # es1, Inl ex, s1)"
  using assms by (simp add: read_tomorrow_def io_seq_print_apply io_bind_apply)

lemma read_tomorrow_weekday_given:
  assumes "strip w \<noteq> []"
    and "read_tomorrow today (d # w # x # t # rest) = (es, Inr a, rest')"
  shows "ans_weekday a = strip w \<and> ans_is_weekend a = weekend_flag (strip w)"
proof -
  obtain es1 r where rd: "read_date today (d # w # x # t # rest) = (es1, r, w # x # t # rest)"
    using read_date_result by blast
  show ?thesis
  proof (cases r)
    case (Inl ex)
    with read_tomorrow_bad_date [of today "d # w # x # t # rest" es1 ex] rd assms(2)
    show ?thesis by simp
  next
    case (Inr D)
    with rd have rd': "read_date today (d # w # x # t # rest) = (es1, Inr D, w # x # t # rest)"
      by simp
    note rw = read_weekday_given [OF assms(1), of D "x # t # rest"]
    show ?thesis
    proof (cases "py_float (temp_text t)")
      case (Inl ex)
      from read_tomorrow_bad_temp [OF rd' rw Inl] assms(2) show ?thesis by simp
    next
      case tv: (Inr tv)
      show ?thesis
      proof (cases "strptime D")
        case (Inl ex)
        from read_tomorrow_bad_month [OF rd' rw tv Inl] assms(2) show ?thesis by simp
      next
        case (Inr dt)
        from read_tomorrow_ok [OF rd' rw tv Inr] assms(2) show ?thesis by auto
      qed
    qed
  qed
qed

text \<open>
  C10. A weekday typed at the prompt (anything but a blank line) is taken as it is, with the
  surrounding whitespace stripped: the prompt neither consults the date nor raises, whatever
  was typed. The weekend flag is 1 exactly when that text is the string 6 or the string 7
  and 0 for every other text, and these are the weekday and the flag of the answers the
  Predictor goes on with.
\<close>

theorem weekend_flag_by_string_comparison:
  assumes "strip w \<noteq> []"
  shows "read_weekday date_input (w # ls) = ([Input AskWeekday], Inr (strip w), ls)
    \<and> weekend_flag (strip w) = (if strip w = ascii ''6'' \<or> strip w = ascii ''7'' then 1 else 0)
    \<and> (\<forall>es a rest'. read_tomorrow today (d # w # x # t # rest) = (es, Inr a, rest')
          \<longrightarrow> ans_weekday a = strip w \<and> ans_is_weekend a = weekend_flag (strip w))"
  using read_weekday_given [OF assms] read_tomorrow_weekday_given [OF assms]
  by (auto simp: weekend_flag_def)

theorem weekend_flag_by_string_comparison_witness:
  "read_weekday (ascii ''2024-02-03'') [ascii ''8''] = ([Input AskWeekday], Inr (ascii ''8''), [])
   \<and> weekend_flag (ascii ''8'') = 0
   \<and> read_weekday (ascii ''2024-02-03'') [ascii ''Saturday''] =
       ([Input AskWeekday], Inr (ascii ''Saturday''), [])
   \<and> weekend_flag (ascii ''Saturday'') = 0
   \<and> read_weekday (ascii ''not a date'') [ascii '' 7 ''] = ([Input AskWeekday], Inr (ascii ''7''), [])
   \<and> weekend_flag (ascii ''7'') = 1"
proof -
  have s8: "strip (ascii ''8'') = ascii ''8''" by (simp add: strip_def isspace_def ascii_def)
  have ss: "strip (ascii ''Saturday'') = ascii ''Saturday''"
    by (simp add: strip_def isspace_def ascii_def)
  have s7: "strip (ascii '' 7 '') = ascii ''7''" by (simp add: strip_def isspace_def ascii_def)
  have n: "ascii ''8'' \<noteq> []" "ascii ''Saturday'' \<noteq> []" "ascii ''7'' \<noteq> []"
    by (simp_all add: ascii_def)
  have c: "ascii ''8'' \<noteq> ascii ''6''" "ascii ''8'' \<noteq> ascii ''7''"
    "ascii ''Saturday'' \<noteq> ascii ''6''" "ascii ''Saturday'' \<noteq> ascii ''7''"
    by (simp_all add: ascii_def)
  show ?thesis
    using weekend_flag_by_string_comparison [of "ascii ''8''" "ascii ''2024-02-03''" "[]"]
      weekend_flag_by_string_comparison [of "ascii ''Saturday''" "ascii ''2024-02-03''" "[]"]
      weekend_flag_by_string_comparison [of "ascii '' 7 ''" "ascii ''not a date''" "[]"]
    by (simp add: s8 ss s7 n c)
qed

subsection \<open>Blank answers\<close>

lemma read_tomorrow_all_blank:
  assumes "valid_date today" and "add_one_day today = Inr tm"
    and "strip date_line = []" "strip weekday_line = []" "strip weather_line = []" "strip temp_line = []"
  shows "read_tomorrow today (date_line # weekday_line # weather_line # temp_line # rest) =
    ([Print TomorrowHeader, Input AskDate, Print (UsingDefaultDate (strftime tm)),
      Input AskWeekday, Print (AutoWeekday [digit_char (isoweekday tm)]),
      Print WeatherOptions, Input AskWeather, Print (WeatherCode 2),
      Input AskTemp, Print (Temperature (Finite 20)),
      Print (IsWeekend (weekend_flag [digit_char (isoweekday tm)] \<noteq> 0)),
      Print (MonthSeason (dmonth tm) (season_code (dmonth tm)))],
     Inr \<lparr> ans_date_input = strftime tm, ans_weekday = [digit_char (isoweekday tm)],
           ans_weather_str = [], ans_weather_code = 2, ans_temp = Finite 20,
           ans_is_weekend = weekend_flag [digit_char (isoweekday tm)],
           ans_month = dmonth tm, ans_season = season_code (dmonth tm) \<rparr>, rest)"
proof -
  have sp: "strptime (strftime tm) = Inr tm"
    by (rule strptime_strftime [OF add_one_day_valid [OF assms(1,2)]])
  note rd = read_date_blank [OF assms(3,2), of "weekday_line # weather_line # temp_line # rest"]
  note rw = read_weekday_blank [OF assms(4) sp, of "weather_line # temp_line # rest"]
  have tf: "py_float (temp_text temp_line) = Inr (Finite 20)"
    using assms(6) by (simp add: temp_text_def py_float_20)
  show ?thesis
    using read_tomorrow_ok [OF rd rw tf sp] assms(5)
    by (simp add: weather_map_get_blank)
qed

text \<open>
  C9. Each prompt of the Predictor has a fallback for a blank answer (a line that is empty
  once stripped). A blank date becomes tomorrow, the clock's date plus one day, formatted as
  year-month-day; a blank weekday is the ISO weekday of the resolved date; a blank weather
  word, like any word outside the weather table, gives code 2; a blank temperature gives
  20; a blank pantry line gives the empty ingredient list. With all of them blank, and a
  clock showing a valid date in the years 1000 to 9998, the prompts succeed with exactly
  these values.
\<close>

theorem blank_answers_fall_back:
  "(strip date_line = [] \<and> add_one_day today = Inr tm \<longrightarrow>
      read_date today (date_line # ls) =
        ([Input AskDate, Print (UsingDefaultDate (strftime tm))], Inr (strftime tm), ls))
   \<and> (strip weekday_line = [] \<and> strptime date_input = Inr dt \<longrightarrow>
      read_weekday date_input (weekday_line # ls) =
        ([Input AskWeekday, Print (AutoWeekday [digit_char (isoweekday dt)])],
         Inr [digit_char (isoweekday dt)], ls))
   \<and> (strip weather_line = [] \<or> strip weather_line \<notin> fst ` set weather_map \<longrightarrow> weather_map_get (strip weather_line) = 2)
   \<and> (strip temp_line = [] \<longrightarrow> read_temp (temp_line # ls) = ([Input AskTemp], Inr (Finite 20), ls))
   \<and> (strip pantry_line = [] \<longrightarrow>
      read_inventory feature_columns (pantry_line # ls) =
        ([Print PantryHeader,
          Print (KnownIngredients
            [ingredient_name col. col \<leftarrow> feature_columns, is_ingredient_col col]),
          Input AskInventory], Inr [], ls))
   \<and> (valid_date today \<and> 1000 \<le> dyear today \<and> dyear today < 9999 \<and> strip date_line = [] \<and> strip weekday_line = [] \<and> strip weather_line = []
        \<and> strip temp_line = [] \<longrightarrow>
      (\<exists>tm es. add_one_day today = Inr tm \<and>
         read_tomorrow today (date_line # weekday_line # weather_line # temp_line # rest) =
           (es, Inr \<lparr> ans_date_input = strftime tm,
                 ans_weekday = [digit_char (isoweekday tm)],
                 ans_weather_str = [], ans_weather_code = 2, ans_temp = Finite 20,
                 ans_is_weekend = weekend_flag [digit_char (isoweekday tm)],
                 ans_month = dmonth tm, ans_season = season_code (dmonth tm) \<rparr>, rest)))"
proof (intro conjI impI)
  assume "strip date_line = [] \<and> add_one_day today = Inr tm"
  then show "read_date today (date_line # ls) =
      ([Input AskDate, Print (UsingDefaultDate (strftime tm))], Inr (strftime tm), ls)"
    by (simp add: read_date_blank)
next
  assume "strip weekday_line = [] \<and> strptime date_input = Inr dt"
  then show "read_weekday date_input (weekday_line # ls) =
      ([Input AskWeekday, Print (AutoWeekday [digit_char (isoweekday dt)])],
       Inr [digit_char (isoweekday dt)], ls)"
    by (simp add: read_weekday_blank)
next
  assume "strip weather_line = [] \<or> strip weather_line \<notin> fst ` set weather_map"
  then show "weather_map_get (strip weather_line) = 2"
    using weather_map_get_blank weather_map_get_unknown by auto
next
  assume "strip temp_line = []"
  then show "read_temp (temp_line # ls) = ([Input AskTemp], Inr (Finite 20), ls)"
    by (rule read_temp_blank)
next
  assume "strip pantry_line = []"
  then show "read_inventory feature_columns (pantry_line # ls) =
      ([Print PantryHeader,
        Print (KnownIngredients
          [ingredient_name col. col \<leftarrow> feature_columns, is_ingredient_col col]),
        Input AskInventory], Inr [], ls)"
    by (simp add: read_inventory_apply parse_inventory_blank)
next
  assume a: "valid_date today \<and> 1000 \<le> dyear today \<and> dyear today < 9999 \<and> strip date_line = [] \<and> strip weekday_line = []
    \<and> strip weather_line = [] \<and> strip temp_line = []"
  then obtain tm where tm: "add_one_day today = Inr tm"
    using add_one_day_ok by blast
  from a tm show "\<exists>tm es. add_one_day today = Inr tm \<and>
      read_tomorrow today (date_line # weekday_line # weather_line # temp_line # rest) =
        (es, Inr \<lparr> ans_date_input = strftime tm,
              ans_weekday = [digit_char (isoweekday tm)],
              ans_weather_str = [], ans_weather_code = 2, ans_temp = Finite 20,
              ans_is_weekend = weekend_flag [digit_char (isoweekday tm)],
              ans_month = dmonth tm, ans_season = season_code (dmonth tm) \<rparr>, rest)"
    using read_tomorrow_all_blank [of today tm date_line weekday_line weather_line temp_line rest] by blast
qed


theorem blank_answers_fall_back_witness:
  "read_date (Date 2024 2 2) [[]] =
     ([Input AskDate, Print (UsingDefaultDate (ascii ''2024-02-03''))],
      Inr (ascii ''2024-02-03''), [])
   \<and> weather_map_get (strip (ascii ''hail'')) = 2
   \<and> read_temp [ascii ''  ''] = ([Input AskTemp], Inr (Finite 20), [])
   \<and> (\<exists>es. read_tomorrow (Date 2024 2 2) [[], [], [], ascii ''  '', ascii ''corn''] =
         (es, Inr \<lparr> ans_date_input = ascii ''2024-02-03'', ans_weekday = ascii ''6'',
               ans_weather_str = [], ans_weather_code = 2, ans_temp = Finite 20,
               ans_is_weekend = 1, ans_month = 2, ans_season = 4 \<rparr>, [ascii ''corn'']))"
proof -
  have sf: "strftime (Date 2024 2 3) = ascii ''2024-02-03''"
    by (simp add: strftime_def two_digits_def digit_char_def ascii_def)
  have hail: "strip (ascii ''hail'') \<notin> fst ` set weather_map"
    by (simp add: strip_def isspace_def ascii_def weather_map_def)
  have sb: "strip (ascii ''  '') = []" by (simp add: strip_def isspace_def ascii_def)
  have v: "valid_date (Date 2024 2 2)"
    by (simp add: valid_date_def days_in_month_def is_leap_def)
  have wf: "weekend_flag (ascii ''6'') = 1" by (simp add: weekend_flag_def)
  have d6: "[digit_char 6] = ascii ''6''" by (simp add: digit_char_def ascii_def)
  show ?thesis
    using blank_answers_fall_back [where date_line = "[]" and today = "Date 2024 2 2"
        and tm = "Date 2024 2 3" and ls = "[]" and weekday_line = "[]"
        and weather_line = "ascii ''hail''" and temp_line = "ascii ''  ''"
        and rest = "[ascii ''corn'']"]
      blank_answers_fall_back [where date_line = "[]" and today = "Date 2024 2 2"
        and tm = "Date 2024 2 3" and ls = "[]" and weekday_line = "[]"
        and weather_line = "[]" and temp_line = "ascii ''  ''"
        and rest = "[ascii ''corn'']"]
    by (simp add: strip_Nil demo_tomorrow sf hail sb v demo_isoweekday d6 wf
        season_code_def)
qed

subsection \<open>The feature vector\<close>

text \<open>
  C6. For a feature schema whose names are the six fixed columns or ingredient columns, the
  encoding succeeds and the vector holds, position by position, the value of the feature
  named at that position of the schema, so it has the length and the order of the schema.
  The value of an ingredient column is 1 when its ingredient is in the pantry list and 0
  otherwise. Pantry names that no column of the schema stands for change nothing: with
  them removed the result is the same.
\<close>

theorem features_follow_schema:
  assumes "valid_schema S"
  shows "tomorrow_features a pantry S = Inr (map (feature_value a pantry) S)
    \<and> length (map (feature_value a pantry) S) = length S
    \<and> (\<forall>col \<in> set S. is_ingredient_col col \<longrightarrow>
          feature_value a pantry col
            = (if ingredient_name col \<in> set pantry then Finite 1 else Finite 0))
    \<and> tomorrow_features a [n \<leftarrow> pantry. n \<in> schema_ingredients S] S
          = tomorrow_features a pantry S"
proof -
  have "map (feature_value a [n \<leftarrow> pantry. n \<in> schema_ingredients S]) S
      = map (feature_value a pantry) S"
    by (rule map_cong [OF refl]) (rule feature_value_known_names)
  then show ?thesis
    by (simp add: tomorrow_features_valid [OF assms] feature_value_def)
qed

theorem features_follow_schema_witness:
  "tomorrow_features demo_answers [ascii ''pork ribs'', ascii ''tofu'', ascii ''corn'']
     demo_columns = Inr (map Finite [10, 0, 2, 4, 1, 75, 1, 1, 0])
   \<and> tomorrow_features demo_answers [ascii ''pork ribs'', ascii ''corn''] demo_columns
     = Inr (map Finite [10, 0, 2, 4, 1, 75, 1, 1, 0])"
proof -
  have "map (feature_value demo_answers [ascii ''pork ribs'', ascii ''tofu'', ascii ''corn''])
      demo_columns = map Finite [10, 0, 2, 4, 1, 75, 1, 1, 0]"
    by (simp add: demo_columns_def fixed_columns_def feature_value_def demo_answers_def
        ingredient_name_def is_ingredient_col_def startswith_def col_defs ascii_def)
  moreover have "[n \<leftarrow> [ascii ''pork ribs'', ascii ''tofu'', ascii ''corn''].
      n \<in> schema_ingredients demo_columns] = [ascii ''pork ribs'', ascii ''corn'']"
    by (simp add: schema_ingredients_def demo_columns_def fixed_columns_def
        ingredient_name_def is_ingredient_col_def startswith_def col_defs ascii_def)
  ultimately show ?thesis
    using features_follow_schema [OF demo_valid_schema, of demo_answers
        "[ascii ''pork ribs'', ascii ''tofu'', ascii ''corn'']"]
    by simp
qed

subsection \<open>Typical and missing ingredients\<close>

text \<open>
  C5. Take a history table that has the label column and the ingredient columns of the
  schema, whose rows for the top soup are not empty and mark each ingredient of the schema
  by 1 or 0. Then the recipe check reads the table and reports as usually needed exactly
  the ingredients of the schema present in more than half of those rows, in schema order;
  what it reports missing are the usual ingredients that are not in the pantry list, and
  when none is missing it reports that everything is there.
\<close>

theorem recipe_check_reports_missing:
  assumes "col_soup \<in> set (columns h)"
    and "\<forall>col \<in> set S. is_ingredient_col col \<longrightarrow> col \<in> set (columns h)"
    and "filter (\<lambda>r. label r = top_soup) (rows h) = rs" and "rs \<noteq> []"
    and "\<forall>col \<in> set S. is_ingredient_col col \<longrightarrow> presence_marked rs col"
    and "typical = [ingredient_name col. col \<leftarrow> S, is_ingredient_col col \<and> in_more_than_half rs col]"
  shows "check_recipe (Some h) S pantry top_soup s =
      ([ReadCsv, Print (UsuallyNeeds typical),
        Print (if missing_ingredients typical pantry = [] then ReadyToCook
               else MissingIngredients (missing_ingredients typical pantry))], Inr (), s)
    \<and> set (missing_ingredients typical pantry) = set typical - set pantry"
  using check_recipe_ok [OF assms] set_missing_ingredients by blast

theorem recipe_check_reports_missing_witness:
  "check_recipe (Some demo_history) demo_columns [ascii ''pork ribs'', ascii ''corn'']
     (ascii ''corn rib soup'') [] =
   ([ReadCsv, Print (UsuallyNeeds [ascii ''pork ribs'', ascii ''corn'', ascii ''carrot'']),
     Print (MissingIngredients [ascii ''carrot''])], Inr (), [])
   \<and> check_recipe (Some demo_history) demo_columns
     [ascii ''carrot'', ascii ''pork ribs'', ascii ''corn''] (ascii ''corn rib soup'') [] =
   ([ReadCsv, Print (UsuallyNeeds [ascii ''pork ribs'', ascii ''corn'', ascii ''carrot'']),
     Print ReadyToCook], Inr (), [])"
  using recipe_check_reports_missing [OF demo_recipe_facts,
      of "[ascii ''pork ribs'', ascii ''corn'']" "[]"]
    recipe_check_reports_missing [OF demo_recipe_facts,
      of "[ascii ''carrot'', ascii ''pork ribs'', ascii ''corn'']" "[]"]
  by (simp add: missing_ingredients_def ascii_def)


subsection \<open>The history file\<close>

text \<open>
  C3. Without the history file the Trainer stops at its first step: the read raises
  \<open>FileNotFoundError\<close>, which nothing catches. The Predictor ranks the soups without
  looking at the file: its steps up to the ranking are the same whether the file is there or
  not. When the file is absent and the ranking has produced a candidate, the run prints the
  first recommendation and its confidence, then tries to read the file for the recipe check
  and ends there with the uncaught \<open>FileNotFoundError\<close>. In every run of the Predictor,
  whatever the inputs and the files, the first recommendation and its confidence are
  printed before the history file is read for the first time.
\<close>

theorem history_absent_is_fatal_after_ranking:
  "run (train lib None) lines = ([TrainPrint TrainingStarted, ReadCsv], Uncaught FileNotFoundError)
   \<and> rank_soups (e\<lparr>history_cleaned_csv := None\<rparr>) = rank_soups e
   \<and> (history_cleaned_csv e = None
        \<and> rank_soups e lines = (es, Inr (a, S, pantry, t # ts, p # ps), rest) \<longrightarrow>
      run (predict e) lines =
        (es @ first_choice_events pantry t p @ [ReadCsv], Uncaught FileNotFoundError))
   \<and> (ReadCsv \<in> set (fst (run (predict e) lines)) \<longrightarrow>
      (\<exists>t p. Print (FirstChoice t)
            \<in> set (takeWhile (\<lambda>ev. ev \<noteq> ReadCsv) (fst (run (predict e) lines)))
         \<and> Print (Confidence p)
            \<in> set (takeWhile (\<lambda>ev. ev \<noteq> ReadCsv) (fst (run (predict e) lines)))))"
proof (intro conjI impI)
  show "run (train lib None) lines =
      ([TrainPrint TrainingStarted, ReadCsv], Uncaught FileNotFoundError)"
    by (simp add: run_def train_history_absent)
  show "rank_soups (e\<lparr>history_cleaned_csv := None\<rparr>) = rank_soups e"
    by (rule rank_soups_history_irrelevant)
next
  assume "history_cleaned_csv e = None
    \<and> rank_soups e lines = (es, Inr (a, S, pantry, t # ts, p # ps), rest)"
  then show "run (predict e) lines =
      (es @ first_choice_events pantry t p @ [ReadCsv], Uncaught FileNotFoundError)"
    using predict_history_absent by blast
next
  assume "ReadCsv \<in> set (fst (run (predict e) lines))"
  then show "\<exists>t p. Print (FirstChoice t)
        \<in> set (takeWhile (\<lambda>ev. ev \<noteq> ReadCsv) (fst (run (predict e) lines)))
      \<and> Print (Confidence p)
        \<in> set (takeWhile (\<lambda>ev. ev \<noteq> ReadCsv) (fst (run (predict e) lines)))"
    by (rule first_choice_before_read)
qed

theorem history_absent_is_fatal_after_ranking_witness:
  "run (predict (demo_env\<lparr>history_cleaned_csv := None\<rparr>)) demo_lines =
   ([Print Started, Print Rule, JoblibLoad SoupPredictorModelPkl, JoblibLoad LabelEncoderPkl,
     JoblibLoad FeatureColumnsPkl, Print ModelLoaded, Print (KnownSoups demo_classes),
     Print TomorrowHeader, Input AskDate, Print (UsingDefaultDate (ascii ''2024-02-03'')),
     Input AskWeekday, Print (AutoWeekday (ascii ''6'')),
     Print WeatherOptions, Input AskWeather, Print (WeatherCode 0),
     Input AskTemp, Print (Temperature (Finite 10)), Print (IsWeekend True), Print (MonthSeason 2 4),
     Print PantryHeader,
     Print (KnownIngredients [ascii ''pork ribs'', ascii ''corn'', ascii ''carrot'']),
     Input AskInventory, Print Analysing,
     Print Rule, Print ResultHeader, Print Rule, Print (FirstChoice (ascii ''corn rib soup'')),
     Print (Confidence (3/5)), Print ReasonLabel,
     Print (Inventory [ascii ''pork ribs'', ascii ''corn'']),
     Print (IfCook (ascii ''corn rib soup'')), ReadCsv], Uncaught FileNotFoundError)"
proof -
  let ?e = "demo_env\<lparr>history_cleaned_csv := None\<rparr>"
  let ?es = "[Print Started, Print Rule, JoblibLoad SoupPredictorModelPkl,
      JoblibLoad LabelEncoderPkl,
      JoblibLoad FeatureColumnsPkl, Print ModelLoaded, Print (KnownSoups demo_classes),
      Print TomorrowHeader, Input AskDate, Print (UsingDefaultDate (ascii ''2024-02-03'')),
      Input AskWeekday, Print (AutoWeekday (ascii ''6'')),
      Print WeatherOptions, Input AskWeather, Print (WeatherCode 0),
      Input AskTemp, Print (Temperature (Finite 10)), Print (IsWeekend True), Print (MonthSeason 2 4),
      Print PantryHeader,
      Print (KnownIngredients [ascii ''pork ribs'', ascii ''corn'', ascii ''carrot'']),
      Input AskInventory, Print Analysing]"
  have h: "history_cleaned_csv ?e = None" by simp
  have r: "rank_soups ?e demo_lines =
    (?es, Inr (demo_answers, demo_columns, [ascii ''pork ribs'', ascii ''corn''],
          ascii ''corn rib soup'' # [ascii ''melon soup'', ascii ''lotus soup''],
          3/5 # [3/10, 1/10]), [ascii ''n''])"
    by (simp only: rank_soups_history_irrelevant demo_rank_soups)
  have "run (predict ?e) demo_lines =
      (?es @ first_choice_events [ascii ''pork ribs'', ascii ''corn'']
          (ascii ''corn rib soup'') (3/5) @ [ReadCsv], Uncaught FileNotFoundError)"
    using history_absent_is_fatal_after_ranking
      [where lib = demo_lib and lines = demo_lines and e = ?e and es = ?es
        and a = demo_answers and S = demo_columns
        and pantry = "[ascii ''pork ribs'', ascii ''corn'']"
        and t = "ascii ''corn rib soup''" and ts = "[ascii ''melon soup'', ascii ''lotus soup'']"
        and p = "3/5" and ps = "[3/10, 1/10]" and rest = "[ascii ''n'']"] h r
    by blast
  then show ?thesis by (simp add: first_choice_events_def)
qed

subsection \<open>Partitions of the training data\<close>

text \<open>
  C4. Take a history table with the fixed columns and the label column, a fit that succeeds
  on the training rows and, where rows are held out, a classification report that is
  produced. With at least 15 records the Trainer asks for a split with a test share of 0.2
  stratified by the encoded labels and, when that returns, fits on the training part and
  evaluates on the held-out part. When the stratified split raises \<open>ValueError\<close>, the
  Trainer says so and asks for the same split without stratification; when that returns,
  the run goes on in the same way and completes. With fewer than 15 records all rows are
  used for fitting, no evaluation is made, both facts are printed, and the run completes
  with the saved triple.
\<close>

theorem trainer_partitions:
  assumes "set fixed_columns \<subseteq> set (columns h)" and "col_soup \<in> set (columns h)"
  shows "(15 \<le> length (rows h)
        \<and> train_test_split lib (training_samples h) (2 / 10) 42
              (Some (map snd (training_samples h))) = Some (tr, te)
        \<and> fit lib tr = Some m \<and> classification_report lib m te \<longrightarrow>
      train lib (Some h) s =
        (train_trace lib h m [TrainPrint (SplitSizes (length tr) (length te))]
           [TrainPrint EvaluationHeader, TrainPrint (Accuracy (accuracy lib m te)),
            TrainPrint ReportHeader, TrainPrint ClassificationReport],
         Inr (m, vocabulary h, training_columns h), s))
   \<and> (15 \<le> length (rows h)
        \<and> train_test_split lib (training_samples h) (2 / 10) 42
              (Some (map snd (training_samples h))) = None
        \<and> train_test_split lib (training_samples h) (2 / 10) 42 None = Some (tr, te)
        \<and> fit lib tr = Some m \<and> classification_report lib m te \<longrightarrow>
      train lib (Some h) s =
        (train_trace lib h m
           [TrainPrint CannotStratify, TrainPrint (RandomSplitSizes (length tr) (length te))]
           [TrainPrint EvaluationHeader, TrainPrint (Accuracy (accuracy lib m te)),
            TrainPrint ReportHeader, TrainPrint ClassificationReport],
         Inr (m, vocabulary h, training_columns h), s))
   \<and> (length (rows h) < 15 \<and> fit lib (training_samples h) = Some m \<longrightarrow>
      train lib (Some h) s =
        (train_trace lib h m [TrainPrint (AllUsedForFitting (length (rows h)))]
           [TrainPrint EvaluationSkipped],
         Inr (m, vocabulary h, training_columns h), s))"
proof (intro conjI impI)
  assume a: "15 \<le> length (rows h)
    \<and> train_test_split lib (training_samples h) (2 / 10) 42
          (Some (map snd (training_samples h))) = Some (tr, te)
    \<and> fit lib tr = Some m \<and> classification_report lib m te"
  then have sp: "split_data lib (length (rows h)) (training_samples h) s =
      ([TrainPrint (SplitSizes (length tr) (length te))], Inr (tr, Some te), s)"
    by (simp add: split_data_stratified)
  from a have ev: "evaluate lib m (Some te) s =
      ([TrainPrint EvaluationHeader, TrainPrint (Accuracy (accuracy lib m te)),
        TrainPrint ReportHeader, TrainPrint ClassificationReport], Inr (), s)"
    by (simp add: evaluate_held_out)
  from a have ft: "fit lib tr = Some m" by simp
  show "train lib (Some h) s =
      (train_trace lib h m [TrainPrint (SplitSizes (length tr) (length te))]
         [TrainPrint EvaluationHeader, TrainPrint (Accuracy (accuracy lib m te)),
          TrainPrint ReportHeader, TrainPrint ClassificationReport],
       Inr (m, vocabulary h, training_columns h), s)"
    by (rule train_with_partitions [OF assms sp ft ev])
next
  assume a: "15 \<le> length (rows h)
    \<and> train_test_split lib (training_samples h) (2 / 10) 42
          (Some (map snd (training_samples h))) = None
    \<and> train_test_split lib (training_samples h) (2 / 10) 42 None = Some (tr, te)
    \<and> fit lib tr = Some m \<and> classification_report lib m te"
  then have sp: "split_data lib (length (rows h)) (training_samples h) s =
      ([TrainPrint CannotStratify, TrainPrint (RandomSplitSizes (length tr) (length te))],
       Inr (tr, Some te), s)"
    by (simp add: split_data_fallback)
  from a have ev: "evaluate lib m (Some te) s =
      ([TrainPrint EvaluationHeader, TrainPrint (Accuracy (accuracy lib m te)),
        TrainPrint ReportHeader, TrainPrint ClassificationReport], Inr (), s)"
    by (simp add: evaluate_held_out)
  from a have ft: "fit lib tr = Some m" by simp
  show "train lib (Some h) s =
      (train_trace lib h m
         [TrainPrint CannotStratify, TrainPrint (RandomSplitSizes (length tr) (length te))]
         [TrainPrint EvaluationHeader, TrainPrint (Accuracy (accuracy lib m te)),
          TrainPrint ReportHeader, TrainPrint ClassificationReport],
       Inr (m, vocabulary h, training_columns h), s)"
    by (rule train_with_partitions [OF assms sp ft ev])
next
  assume a: "length (rows h) < 15 \<and> fit lib (training_samples h) = Some m"
  then have sp: "split_data lib (length (rows h)) (training_samples h) s =
      ([TrainPrint (AllUsedForFitting (length (rows h)))], Inr (training_samples h, None), s)"
    by (simp add: split_data_small)
  from a have ft: "fit lib (training_samples h) = Some m" by simp
  show "train lib (Some h) s =
      (train_trace lib h m [TrainPrint (AllUsedForFitting (length (rows h)))]
         [TrainPrint EvaluationSkipped],
       Inr (m, vocabulary h, training_columns h), s)"
    by (rule train_with_partitions [OF assms sp ft evaluate_skipped])
qed

theorem trainer_partitions_witness:
  "train demo_lib (Some demo_history) [] =
     (train_trace demo_lib demo_history demo_model [TrainPrint (AllUsedForFitting 4)]
        [TrainPrint EvaluationSkipped],
      Inr (demo_model, vocabulary demo_history, training_columns demo_history), [])
   \<and> train demo_lib (Some demo_long_history) [] =
     (train_trace demo_lib demo_long_history demo_model
        [TrainPrint CannotStratify,
         TrainPrint (RandomSplitSizes
           (length (drop 4 (training_samples demo_long_history)))
           (length (take 4 (training_samples demo_long_history))))]
        [TrainPrint EvaluationHeader, TrainPrint (Accuracy 1),
         TrainPrint ReportHeader, TrainPrint ClassificationReport],
      Inr (demo_model, vocabulary demo_long_history, training_columns demo_long_history), [])"
proof -
  have c: "set fixed_columns \<subseteq> set (columns demo_history)"
    "col_soup \<in> set (columns demo_history)"
    by (auto simp: demo_history_def demo_columns_def)
  have n: "length (rows demo_history) = 4" by (simp add: demo_history_def)
  have f: "fit demo_lib (training_samples demo_history) = Some demo_model"
    by (simp add: demo_lib_def)
  have c': "set fixed_columns \<subseteq> set (columns demo_long_history)"
    "col_soup \<in> set (columns demo_long_history)"
    by (auto simp: demo_long_history_def demo_columns_def)
  have n': "length (rows demo_long_history) = 16" by (simp add: demo_long_history_def)
  have l: "train_test_split demo_lib (training_samples demo_long_history) (2 / 10) 42
        (Some (map snd (training_samples demo_long_history))) = None"
    "train_test_split demo_lib (training_samples demo_long_history) (2 / 10) 42 None =
       Some (drop 4 (training_samples demo_long_history),
             take 4 (training_samples demo_long_history))"
    "fit demo_lib (drop 4 (training_samples demo_long_history)) = Some demo_model"
    "classification_report demo_lib demo_model (take 4 (training_samples demo_long_history))"
    "accuracy demo_lib demo_model (take 4 (training_samples demo_long_history)) = 1"
    by (simp_all add: demo_lib_def)
  have small: "train demo_lib (Some demo_history) [] =
     (train_trace demo_lib demo_history demo_model [TrainPrint (AllUsedForFitting 4)]
        [TrainPrint EvaluationSkipped],
      Inr (demo_model, vocabulary demo_history, training_columns demo_history), [])"
    using trainer_partitions [OF c, of demo_lib _ _ demo_model "[]"] n f by simp
  have long: "train demo_lib (Some demo_long_history) [] =
     (train_trace demo_lib demo_long_history demo_model
        [TrainPrint CannotStratify,
         TrainPrint (RandomSplitSizes
           (length (drop 4 (training_samples demo_long_history)))
           (length (take 4 (training_samples demo_long_history))))]
        [TrainPrint EvaluationHeader, TrainPrint (Accuracy 1),
         TrainPrint ReportHeader, TrainPrint ClassificationReport],
      Inr (demo_model, vocabulary demo_long_history, training_columns demo_long_history), [])"
    using trainer_partitions [OF c', of demo_lib "drop 4 (training_samples demo_long_history)"
        "take 4 (training_samples demo_long_history)" demo_model "[]"] n' l(1-4)
    unfolding l(5) by simp
  from small long show ?thesis by (rule conjI)
qed

subsection \<open>The rationale\<close>

lemma reasons_rules:
  "set (reasons w c t) =
     (if w \<noteq> 0 then {WeekendSlowSoup} else {}) \<union> (if c \<le> 1 then {GreyWeatherWarmingSoup} else {})
     \<union> (if float_lt t 15 then {ColdNeedsWarming} else {})
     \<union> (if float_gt t 28 then {HotNeedsLight} else {})"
  by (auto simp: reasons_def float_lt_def float_gt_def split: pyfloat.splits)

text \<open>
  C1. The rationale is built from additive rules over the inputs: the list \<open>reasons\<close>
  holds one entry for each rule that matches. The list is never printed, though. On a
  Saturday with rain and 10 degrees the weekend rule, the weather rule and the cold rule
  match and the list holds their three rationales, yet the run prints the label of the
  rationale and goes straight on to the pantry line: no rationale appears among the events
  of the run.
\<close>

theorem rationale_is_never_printed:
  "reasons (ans_is_weekend demo_answers) (ans_weather_code demo_answers) (ans_temp demo_answers)
     = [WeekendSlowSoup, GreyWeatherWarmingSoup, ColdNeedsWarming]
   \<and> run (predict demo_env) demo_lines =
   ([Print Started, Print Rule, JoblibLoad SoupPredictorModelPkl, JoblibLoad LabelEncoderPkl,
     JoblibLoad FeatureColumnsPkl, Print ModelLoaded, Print (KnownSoups demo_classes),
     Print TomorrowHeader, Input AskDate, Print (UsingDefaultDate (ascii ''2024-02-03'')),
     Input AskWeekday, Print (AutoWeekday (ascii ''6'')),
     Print WeatherOptions, Input AskWeather, Print (WeatherCode 0),
     Input AskTemp, Print (Temperature (Finite 10)), Print (IsWeekend True), Print (MonthSeason 2 4),
     Print PantryHeader,
     Print (KnownIngredients [ascii ''pork ribs'', ascii ''corn'', ascii ''carrot'']),
     Input AskInventory, Print Analysing,
     Print Rule, Print ResultHeader, Print Rule, Print (FirstChoice (ascii ''corn rib soup'')),
     Print (Confidence (3/5)), Print ReasonLabel,
     Print (Inventory [ascii ''pork ribs'', ascii ''corn'']),
     Print (IfCook (ascii ''corn rib soup'')),
     ReadCsv, Print (UsuallyNeeds [ascii ''pork ribs'', ascii ''corn'', ascii ''carrot'']),
     Print (MissingIngredients [ascii ''carrot'']),
     Print AlternativesHeader, Print (Alternative 2 (ascii ''melon soup'') (3/10)),
     Print (Alternative 3 (ascii ''lotus soup'') (1/10)),
     Print Rule, Print Tip, Print Rule, Input AskSave], Finished)"
  by (simp add: reasons_def float_lt_def demo_answers_def demo_run)

end
